theory Spec2Isabelle
  imports Main "HOL-Library.Word"
begin

section \<open>The accounts client: data model\<close>

text \<open>
  The client library issues one HTTP exchange per operation (or a sequence of them for the
  fan-out operations of \<^verbatim>\<open>accounts.go\<close>) and decodes the answer. Everything below is a
  shallow embedding of the Go source: a struct is a record, a nil-able pointer is an
  \<open>option\<close>, a Go \<^verbatim>\<open>error\<close> return is an \<open>error option\<close> (\<open>None\<close> is \<^verbatim>\<open>nil\<close>) and a
  \<^verbatim>\<open>(value, error)\<close> return is a sum (\<open>Inl\<close> is \<^verbatim>\<open>nil, err\<close>).
\<close>

subsection \<open>Identifiers, instants, errors\<close>

text \<open>\<^verbatim>\<open>uuid.UUID\<close> is a 16-byte array; \<^verbatim>\<open>uuid.Nil\<close> is the all-zero one.\<close>

type_synonym uuid = "128 word"

definition uuid_Nil :: uuid where
  "uuid_Nil = 0"

text \<open>
  A \<^verbatim>\<open>time.Time\<close> is an instant on the time line, counted in nanoseconds;
  a \<^verbatim>\<open>time.Duration\<close> is a number of nanoseconds.
\<close>

type_synonym time = int

definition time_Hour :: int where
  "time_Hour = 3600 * 1000000000"

definition time_Add :: "time \<Rightarrow> int \<Rightarrow> time" where
  "time_Add t d = t + d"

definition time_Before :: "time \<Rightarrow> time \<Rightarrow> bool" where
  "time_Before t u = (t < u)"

text \<open>
  An error value records how the source built it: \<^verbatim>\<open>errors.New(msg)\<close>, or
  \<^verbatim>\<open>fmt.Errorf(format, args...)\<close> with its format string and its arguments in order
  (a string or byte slice, an integer, a wrapped error). \<open>ValidationErrors\<close> is the
  error of the ozzo validator, with the names of the fields that failed.
\<close>

datatype error =
    ErrorsNew string
  | Errorf string "fmtarg list"
  | ValidationErrors "string list"
and fmtarg = AStr string | AInt int | AErr error

subsection \<open>HTTP requests and responses\<close>

text \<open>
  The JSON documents the client sends. A request body is the rendering of such a
  document (\<open>None\<close> when \<^verbatim>\<open>http.NewRequest\<close> gets a \<^verbatim>\<open>nil\<close> body).
\<close>

datatype json =
    JNull
  | JString string
  | JArray "json list"
  | JObject "(string \<times> json) list"

record request =
  Method :: string
  URL :: string
  Header :: "(string \<times> string) list"
  ReqBody :: "json option"

text \<open>
  A response: the status code, the status line, and what \<^verbatim>\<open>io.ReadAll(resp.Body)\<close>
  returns (the bytes read, and the read error if there is one).
\<close>

record response =
  StatusCode :: int
  Status :: string
  Body :: string
  BodyErr :: "error option"

definition io_ReadAll :: "response \<Rightarrow> string \<times> error option" where
  "io_ReadAll resp = (Body resp, BodyErr resp)"

definition http_StatusOK :: int where "http_StatusOK = 200"
definition http_StatusCreated :: int where "http_StatusCreated = 201"
definition http_StatusNoContent :: int where "http_StatusNoContent = 204"
definition http_StatusNotFound :: int where "http_StatusNotFound = 404"

record url =
  Scheme :: string
  Host :: string
  Path :: string
  RawQuery :: string

text \<open>\<^verbatim>\<open>Client\<close>: the configuration carried on every call.\<close>

record Client =
  BaseURL :: string
  Token :: string
  ApiKey :: string


subsection \<open>The account structs of \<^verbatim>\<open>accounts.go\<close>\<close>

text \<open>
  Field names carry a prefix per struct (\<open>acc\<close>, \<open>cai\<close>, \<open>uai\<close>, \<open>sai\<close>), since the four
  structs share their field names. A \<^verbatim>\<open>*uuid.UUID\<close> is a \<open>uuid option\<close>.
\<close>

record Account =
  acc_ID :: uuid
  acc_UserID :: "uuid option"
  acc_AgencyID :: "uuid option"
  acc_CelebrityID :: "uuid option"
  acc_BusinessID :: "uuid option"
  acc_EnterpriseID :: "uuid option"
  acc_GovernmentID :: "uuid option"

record CreateAccountInput =
  cai_UserID :: "uuid option"
  cai_AgencyID :: "uuid option"
  cai_CelebrityID :: "uuid option"
  cai_BusinessID :: "uuid option"
  cai_EnterpriseID :: "uuid option"
  cai_GovernmentID :: "uuid option"

record UpdateAccountInput =
  uai_UserID :: "uuid option"
  uai_AgencyID :: "uuid option"
  uai_CelebrityID :: "uuid option"
  uai_BusinessID :: "uuid option"
  uai_EnterpriseID :: "uuid option"
  uai_GovernmentID :: "uuid option"

record SearchAccountInput =
  sai_UserID :: "uuid option"
  sai_AgencyID :: "uuid option"
  sai_CelebrityID :: "uuid option"
  sai_BusinessID :: "uuid option"
  sai_EnterpriseID :: "uuid option"
  sai_GovernmentID :: "uuid option"

subsection \<open>The structs of the other files\<close>

text \<open>
  \<^verbatim>\<open>Token\<close> (\<^verbatim>\<open>tokens.go\<close>), \<^verbatim>\<open>AccountMembership\<close> and \<^verbatim>\<open>UpdateAccountMembershipEvent\<close>
  (\<^verbatim>\<open>account_memberships.go\<close>), \<^verbatim>\<open>ServiceAccount\<close> (the service-account file),
  \<^verbatim>\<open>CreateCelebrityAccountResponse\<close> (\<^verbatim>\<open>celebrity.go\<close>) and \<^verbatim>\<open>AccountLinkRequest\<close>
  (\<^verbatim>\<open>account_links.go\<close>). A nil slice and a nil \<^verbatim>\<open>error\<close> are \<open>None\<close>.
\<close>

record Token =
  tok_Plaintext :: string
  tok_Hash :: "8 word list option"
  tok_UserID :: uuid
  tok_Expiry :: time
  tok_Scope :: string
  tok_Error :: "error option"

record AccountMembership =
  am_ID :: uuid
  am_AccountType :: string
  am_AccountID :: uuid
  am_UserID :: uuid
  am_Role :: string
  am_JoinedAt :: time

record UpdateAccountMembershipEvent =
  ev_AccountType :: string
  ev_AccountID :: uuid
  ev_UserID :: uuid
  ev_Role :: string

record ServiceAccount =
  sa_ID :: uuid
  sa_Secret :: string
  sa_ServiceName :: string
  sa_Roles :: "string list option"
  sa_CreatedAt :: time
  sa_ExpiresAt :: "time option"

record CreateCelebrityAccountResponse =
  ccr_CelebrityID :: uuid
  ccr_Status :: string
  ccr_Message :: string

record AccountLinkRequest =
  alr_UserID :: uuid
  alr_AccountType :: string
  alr_AccountID :: uuid

subsection \<open>What lies outside the repository\<close>

text \<open>
  The standard library and the two third-party packages are not part of the repository.
  The pure functions the client calls are the fields of \<open>lib\<close>; the model takes them as
  a parameter and proves its theorems for every choice of them:
  \<^item> \<open>url_Parse\<close>, \<open>url_String\<close>, \<open>url_Query\<close>, \<open>Values_Encode\<close>: package \<^verbatim>\<open>net/url\<close>;
  \<^item> \<open>path_Join\<close>: \<^verbatim>\<open>path.Join\<close>;
  \<^item> \<open>NewRequest_err\<close>: the error of \<^verbatim>\<open>http.NewRequest(method, url, body)\<close>, if any;
  \<^item> \<open>uuid_String\<close>: the canonical text of a UUID;
  \<^item> \<open>time_MarshalJSON\<close>: the RFC 3339 text of an instant (it fails for a year outside
    0..9999);
  \<^item> \<open>is_URL\<close>: the rule \<^verbatim>\<open>is.URL\<close> of the validator;
  \<^item> \<open>base64_EncodeToString\<close>: the text \<^verbatim>\<open>encoding/json\<close> writes for a byte slice;
  \<^item> \<open>Marshal_error\<close>: what \<^verbatim>\<open>encoding/json\<close> writes for a non-nil \<^verbatim>\<open>error\<close> value;
  \<^item> \<open>Unmarshal_Account\<close>, \<open>Unmarshal_AccountList\<close>, \<open>Unmarshal_Accounts\<close>:
    \<^verbatim>\<open>json.Unmarshal\<close> of a body into an \<^verbatim>\<open>Account\<close>, into an \<^verbatim>\<open>AccountList\<close> (of which
    the client reads the field \<^verbatim>\<open>Accounts\<close>) and into a \<^verbatim>\<open>[]*Account\<close>;
  \<^item> \<open>Decode_Token\<close>, \<open>Decode_AccountMembership\<close>, \<open>Decode_CelebrityResponse\<close>:
    \<^verbatim>\<open>json.NewDecoder(resp.Body).Decode\<close> into the struct named.
\<close>

record lib =
  url_Parse :: "string \<Rightarrow> error + url"
  url_String :: "url \<Rightarrow> string"
  url_Query :: "url \<Rightarrow> (string \<times> string list) list"
  Values_Encode :: "(string \<times> string list) list \<Rightarrow> string"
  path_Join :: "string list \<Rightarrow> string"
  NewRequest_err :: "string \<Rightarrow> string \<Rightarrow> error option"
  uuid_String :: "uuid \<Rightarrow> string"
  time_MarshalJSON :: "time \<Rightarrow> error + string"
  is_URL :: "string \<Rightarrow> bool"
  base64_EncodeToString :: "8 word list \<Rightarrow> string"
  Marshal_error :: "error \<Rightarrow> error + json"
  Unmarshal_Account :: "string \<Rightarrow> error + Account"
  Unmarshal_AccountList :: "string \<Rightarrow> error + Account list"
  Unmarshal_Accounts :: "string \<Rightarrow> error + Account option list"
  Decode_Token :: "response \<Rightarrow> error + Token"
  Decode_AccountMembership :: "response \<Rightarrow> error + AccountMembership"
  Decode_CelebrityResponse :: "response \<Rightarrow> error + CreateCelebrityAccountResponse"

text \<open>
  The world outside the process is a state of an arbitrary type \<open>'w\<close>: the server and
  the clock. \<open>transport\<close> is \<^verbatim>\<open>c.HttpClient.Do\<close>: it takes a request to a transport
  failure or a response and changes the world; \<open>clock\<close> is \<^verbatim>\<open>time.Now\<close>.
\<close>

record 'w platform =
  transport :: "request \<Rightarrow> 'w \<Rightarrow> (error + response) \<times> 'w"
  clock :: "'w \<Rightarrow> time \<times> 'w"

text \<open>
  The state threaded through every operation: the world, and the log of the requests
  handed to the transport so far, oldest first.
\<close>

record 'w net =
  world :: 'w
  sent :: "request list"

definition HttpClient_Do ::
  "'w platform \<Rightarrow> request \<Rightarrow> 'w net \<Rightarrow> (error + response) \<times> 'w net" where
  "HttpClient_Do P req s =
     (case transport P req (world s) of
        (r, w') \<Rightarrow> (r, \<lparr>world = w', sent = sent s @ [req]\<rparr>))"

definition time_Now :: "'w platform \<Rightarrow> 'w net \<Rightarrow> time \<times> 'w net" where
  "time_Now P s = (case clock P (world s) of (t, w') \<Rightarrow> (t, s\<lparr>world := w'\<rparr>))"

definition http_NewRequest :: "lib \<Rightarrow> string \<Rightarrow> string \<Rightarrow> json option \<Rightarrow> error + request" where
  "http_NewRequest L m u b =
     (case NewRequest_err L m u of
        Some err \<Rightarrow> Inl err
      | None \<Rightarrow> Inr \<lparr>Method = m, URL = u, Header = [], ReqBody = b\<rparr>)"

definition Header_Set :: "request \<Rightarrow> string \<Rightarrow> string \<Rightarrow> request" where
  "Header_Set req k v = req\<lparr>Header := filter (\<lambda>(k', _). k' \<noteq> k) (Header req) @ [(k, v)]\<rparr>"

definition Header_Add :: "request \<Rightarrow> string \<Rightarrow> string \<Rightarrow> request" where
  "Header_Add req k v = req\<lparr>Header := Header req @ [(k, v)]\<rparr>"

definition Values_Add ::
  "(string \<times> string list) list \<Rightarrow> string \<Rightarrow> string \<Rightarrow> (string \<times> string list) list" where
  "Values_Add vs k v =
     (if k \<in> fst ` set vs
      then map (\<lambda>(k', xs). if k' = k then (k', xs @ [v]) else (k', xs)) vs
      else vs @ [(k, [v])])"

definition Values_Set ::
  "(string \<times> string list) list \<Rightarrow> string \<Rightarrow> string \<Rightarrow> (string \<times> string list) list" where
  "Values_Set vs k v =
     (if k \<in> fst ` set vs
      then map (\<lambda>(k', xs). if k' = k then (k', [v]) else (k', xs)) vs
      else vs @ [(k, [v])])"

subsection \<open>\<^verbatim>\<open>json.Marshal\<close> on the structs of the client\<close>

text \<open>
  \<^verbatim>\<open>encoding/json\<close> writes a struct as an object, one member per exported field in the
  order of declaration, under the name its tag gives. A field tagged \<^verbatim>\<open>json:"-"\<close> is
  skipped; a field tagged \<^verbatim>\<open>omitempty\<close> is skipped when its value is empty. The values
  the client's structs hold are the constructors of \<open>gval\<close>.
\<close>

datatype gval =
    GString string
  | GUUID uuid
  | GUUIDPtr "uuid option"
  | GTime time
  | GTimePtr "time option"
  | GStrings "string list option"
  | GBytes "8 word list option"
  | GError "error option"

datatype tag = Dash | Tag string bool

text \<open>
  The encoder's \<^verbatim>\<open>isEmptyValue\<close>: a string, slice or array is empty when its length is
  0, a pointer or interface when it is nil, and a struct never is. A \<^verbatim>\<open>uuid.UUID\<close> is an
  array of length 16 and a \<^verbatim>\<open>time.Time\<close> is a struct, so neither is ever empty.
\<close>

fun isEmptyValue :: "gval \<Rightarrow> bool" where
  "isEmptyValue (GString s) = (length s = 0)"
| "isEmptyValue (GUUID u) = ((16::nat) = 0)"
| "isEmptyValue (GUUIDPtr p) = (p = None)"
| "isEmptyValue (GTime t) = False"
| "isEmptyValue (GTimePtr p) = (p = None)"
| "isEmptyValue (GStrings l) = (case l of None \<Rightarrow> True | Some xs \<Rightarrow> length xs = 0)"
| "isEmptyValue (GBytes l) = (case l of None \<Rightarrow> True | Some xs \<Rightarrow> length xs = 0)"
| "isEmptyValue (GError e) = (e = None)"

text \<open>
  The value of one field. A UUID and an instant are written as JSON strings by their own
  marshalling methods; a nil pointer, a nil slice and a nil interface are \<^verbatim>\<open>null\<close>; a
  non-nil byte slice is written in base64.
\<close>

fun encode_value :: "lib \<Rightarrow> gval \<Rightarrow> error + json" where
  "encode_value L (GString s) = Inr (JString s)"
| "encode_value L (GUUID u) = Inr (JString (uuid_String L u))"
| "encode_value L (GUUIDPtr None) = Inr JNull"
| "encode_value L (GUUIDPtr (Some u)) = Inr (JString (uuid_String L u))"
| "encode_value L (GTime t) =
     (case time_MarshalJSON L t of Inl err \<Rightarrow> Inl err | Inr txt \<Rightarrow> Inr (JString txt))"
| "encode_value L (GTimePtr None) = Inr JNull"
| "encode_value L (GTimePtr (Some t)) =
     (case time_MarshalJSON L t of Inl err \<Rightarrow> Inl err | Inr txt \<Rightarrow> Inr (JString txt))"
| "encode_value L (GStrings None) = Inr JNull"
| "encode_value L (GStrings (Some xs)) = Inr (JArray (map JString xs))"
| "encode_value L (GBytes None) = Inr JNull"
| "encode_value L (GBytes (Some bs)) = Inr (JString (base64_EncodeToString L bs))"
| "encode_value L (GError None) = Inr JNull"
| "encode_value L (GError (Some e)) = Marshal_error L e"

fun encode_fields :: "lib \<Rightarrow> (tag \<times> gval) list \<Rightarrow> error + (string \<times> json) list" where
  "encode_fields L [] = Inr []"
| "encode_fields L ((Dash, v) # fs) = encode_fields L fs"
| "encode_fields L ((Tag name omitempty, v) # fs) =
     (if omitempty \<and> isEmptyValue v then encode_fields L fs
      else (case encode_value L v of
              Inl err \<Rightarrow> Inl err
            | Inr j \<Rightarrow> (case encode_fields L fs of
                          Inl err \<Rightarrow> Inl err
                        | Inr ms \<Rightarrow> Inr ((name, j) # ms))))"

definition json_Marshal :: "lib \<Rightarrow> (tag \<times> gval) list \<Rightarrow> error + json" where
  "json_Marshal L fs =
     (case encode_fields L fs of Inl err \<Rightarrow> Inl err | Inr ms \<Rightarrow> Inr (JObject ms))"

text \<open>The fields of the input structs, with the tags of their declarations.\<close>

definition fields_CreateAccountInput :: "CreateAccountInput \<Rightarrow> (tag \<times> gval) list" where
  "fields_CreateAccountInput i =
     [(Tag ''user_id'' False, GUUIDPtr (cai_UserID i)),
      (Tag ''agencyId'' True, GUUIDPtr (cai_AgencyID i)),
      (Tag ''celebrityId'' True, GUUIDPtr (cai_CelebrityID i)),
      (Tag ''businessId'' True, GUUIDPtr (cai_BusinessID i)),
      (Tag ''enterpriseId'' True, GUUIDPtr (cai_EnterpriseID i)),
      (Tag ''governmentId'' True, GUUIDPtr (cai_GovernmentID i))]"

definition fields_UpdateAccountInput :: "UpdateAccountInput \<Rightarrow> (tag \<times> gval) list" where
  "fields_UpdateAccountInput i =
     [(Tag ''user_id'' False, GUUIDPtr (uai_UserID i)),
      (Tag ''agencyId'' True, GUUIDPtr (uai_AgencyID i)),
      (Tag ''celebrityId'' True, GUUIDPtr (uai_CelebrityID i)),
      (Tag ''businessId'' True, GUUIDPtr (uai_BusinessID i)),
      (Tag ''enterpriseId'' True, GUUIDPtr (uai_EnterpriseID i)),
      (Tag ''governmentId'' True, GUUIDPtr (uai_GovernmentID i))]"

section \<open>\<^verbatim>\<open>accounts.go\<close>: the generic account service\<close>

subsection \<open>\<^verbatim>\<open>GetAccountType\<close>\<close>

definition GetAccountType_Create :: "CreateAccountInput \<Rightarrow> string" where
  "GetAccountType_Create input =
     (if cai_UserID input \<noteq> None then ''user''
      else if cai_AgencyID input \<noteq> None then ''agency''
      else if cai_CelebrityID input \<noteq> None then ''celebrity''
      else if cai_BusinessID input \<noteq> None then ''business''
      else if cai_EnterpriseID input \<noteq> None then ''enterprise''
      else if cai_GovernmentID input \<noteq> None then ''government''
      else [])"

definition GetAccountType_Update :: "UpdateAccountInput \<Rightarrow> string" where
  "GetAccountType_Update input =
     (if uai_UserID input \<noteq> None then ''user''
      else if uai_AgencyID input \<noteq> None then ''agency''
      else if uai_CelebrityID input \<noteq> None then ''celebrity''
      else if uai_BusinessID input \<noteq> None then ''business''
      else if uai_EnterpriseID input \<noteq> None then ''enterprise''
      else if uai_GovernmentID input \<noteq> None then ''government''
      else [])"

definition GetAccountType_Search :: "SearchAccountInput \<Rightarrow> string" where
  "GetAccountType_Search input =
     (if sai_UserID input \<noteq> None then ''user''
      else if sai_AgencyID input \<noteq> None then ''agency''
      else if sai_CelebrityID input \<noteq> None then ''celebrity''
      else if sai_BusinessID input \<noteq> None then ''business''
      else if sai_EnterpriseID input \<noteq> None then ''enterprise''
      else if sai_GovernmentID input \<noteq> None then ''government''
      else [])"

subsection \<open>\<^verbatim>\<open>CreateAccount\<close>, \<^verbatim>\<open>UpdateAccount\<close>, \<^verbatim>\<open>SearchAccounts\<close>\<close>

definition CreateAccount ::
  "lib \<Rightarrow> 'w platform \<Rightarrow> Client \<Rightarrow> CreateAccountInput \<Rightarrow> 'w net \<Rightarrow> (error + Account) \<times> 'w net" where
  "CreateAccount L P c input s =
     (case url_Parse L (BaseURL c) of
        Inl err \<Rightarrow> (Inl err, s)
      | Inr u \<Rightarrow>
          let accountType = GetAccountType_Create input in
          if accountType = [] then (Inl (Errorf ''could not determine the account type'' []), s)
          else
            let u = u\<lparr>Path := path_Join L [Path u, accountType]\<rparr> in
            (case json_Marshal L (fields_CreateAccountInput input) of
               Inl err \<Rightarrow> (Inl err, s)
             | Inr requestBody \<Rightarrow>
                 (case http_NewRequest L ''POST'' (url_String L u) (Some requestBody) of
                    Inl err \<Rightarrow> (Inl err, s)
                  | Inr req \<Rightarrow>
                      let req = Header_Set req ''Content-Type'' ''application/json'';
                          req = Header_Set req ''Authorization'' (''Bearer '' @ Token c) in
                      (case HttpClient_Do P req s of
                         (Inl err, s') \<Rightarrow> (Inl err, s')
                       | (Inr resp, s') \<Rightarrow>
                           if StatusCode resp \<noteq> http_StatusOK
                           then (Inl (Errorf ''bad response from server: %s'' [AStr (Status resp)]), s')
                           else (case io_ReadAll resp of
                                   (body, Some err) \<Rightarrow> (Inl err, s')
                                 | (body, None) \<Rightarrow>
                                     (case Unmarshal_Account L body of
                                        Inl err \<Rightarrow> (Inl err, s')
                                      | Inr account \<Rightarrow> (Inr account, s')))))))"

definition UpdateAccount ::
  "lib \<Rightarrow> 'w platform \<Rightarrow> Client \<Rightarrow> uuid \<Rightarrow> UpdateAccountInput \<Rightarrow> 'w net
     \<Rightarrow> (error + Account) \<times> 'w net" where
  "UpdateAccount L P c accountID input s =
     (case url_Parse L (BaseURL c) of
        Inl err \<Rightarrow> (Inl err, s)
      | Inr u \<Rightarrow>
          let accountType = GetAccountType_Update input in
          if accountType = [] then (Inl (Errorf ''could not determine the account type'' []), s)
          else
            let u = u\<lparr>Path := path_Join L [Path u, accountType, uuid_String L accountID]\<rparr> in
            (case json_Marshal L (fields_UpdateAccountInput input) of
               Inl err \<Rightarrow> (Inl err, s)
             | Inr requestBody \<Rightarrow>
                 (case http_NewRequest L ''PUT'' (url_String L u) (Some requestBody) of
                    Inl err \<Rightarrow> (Inl err, s)
                  | Inr req \<Rightarrow>
                      let req = Header_Set req ''Content-Type'' ''application/json'';
                          req = Header_Set req ''Authorization'' (''Bearer '' @ Token c) in
                      (case HttpClient_Do P req s of
                         (Inl err, s') \<Rightarrow> (Inl err, s')
                       | (Inr resp, s') \<Rightarrow>
                           if StatusCode resp \<noteq> http_StatusOK
                           then (Inl (Errorf ''bad response from server: %s'' [AStr (Status resp)]), s')
                           else (case io_ReadAll resp of
                                   (body, Some err) \<Rightarrow> (Inl err, s')
                                 | (body, None) \<Rightarrow>
                                     (case Unmarshal_Account L body of
                                        Inl err \<Rightarrow> (Inl err, s')
                                      | Inr account \<Rightarrow> (Inr account, s')))))))"

definition SearchAccounts ::
  "lib \<Rightarrow> 'w platform \<Rightarrow> Client \<Rightarrow> SearchAccountInput \<Rightarrow> 'w net
     \<Rightarrow> (error + Account option list) \<times> 'w net" where
  "SearchAccounts L P c input s =
     (case url_Parse L (BaseURL c) of
        Inl err \<Rightarrow> (Inl err, s)
      | Inr u \<Rightarrow>
          let accountType = GetAccountType_Search input in
          if accountType = [] then (Inl (Errorf ''could not determine the account type'' []), s)
          else
            let u = u\<lparr>Path := path_Join L [Path u, accountType, ''search'']\<rparr>;
                params = [];
                params = (case sai_UserID input of
                            Some i \<Rightarrow> Values_Add params ''user_id'' (uuid_String L i)
                          | None \<Rightarrow> params);
                params = (case sai_AgencyID input of
                            Some i \<Rightarrow> Values_Add params ''agency_id'' (uuid_String L i)
                          | None \<Rightarrow> params);
                u = u\<lparr>RawQuery := Values_Encode L params\<rparr> in
            (case http_NewRequest L ''GET'' (url_String L u) None of
               Inl err \<Rightarrow> (Inl err, s)
             | Inr req \<Rightarrow>
                 let req = Header_Set req ''Content-Type'' ''application/json'';
                     req = Header_Set req ''Authorization'' (''Bearer '' @ Token c) in
                 (case HttpClient_Do P req s of
                    (Inl err, s') \<Rightarrow> (Inl err, s')
                  | (Inr resp, s') \<Rightarrow>
                      if StatusCode resp \<noteq> http_StatusOK
                      then (Inl (Errorf ''bad response from server: %s'' [AStr (Status resp)]), s')
                      else (case io_ReadAll resp of
                              (body, Some err) \<Rightarrow> (Inl err, s')
                            | (body, None) \<Rightarrow>
                                (case Unmarshal_Accounts L body of
                                   Inl err \<Rightarrow> (Inl err, s')
                                 | Inr accounts \<Rightarrow> (Inr accounts, s'))))))"

subsection \<open>\<^verbatim>\<open>DeleteAccount\<close> and \<^verbatim>\<open>ListAccounts\<close>: the fan-out over the six kinds\<close>

text \<open>The slice both functions range over.\<close>

definition accountTypes :: "string list" where
  "accountTypes = [''user'', ''agency'', ''celebrity'', ''business'', ''enterprise'', ''government'']"

text \<open>
  The \<^verbatim>\<open>for ... range accountTypes\<close> loop of \<^verbatim>\<open>DeleteAccount\<close>, as a recursion over the
  kinds still to probe. Leaving the loop at its end is the last \<^verbatim>\<open>return\<close> of the function.
\<close>

fun DeleteAccount_loop ::
  "lib \<Rightarrow> 'w platform \<Rightarrow> Client \<Rightarrow> uuid \<Rightarrow> string list \<Rightarrow> 'w net \<Rightarrow> error option \<times> 'w net" where
  "DeleteAccount_loop L P c accountID [] s = (Some (Errorf ''account not found'' []), s)"
| "DeleteAccount_loop L P c accountID (accountType # rest) s =
     (case url_Parse L (BaseURL c) of
        Inl err \<Rightarrow> (Some err, s)
      | Inr u \<Rightarrow>
          (case http_NewRequest L ''DELETE''
                  (url_String L (u\<lparr>Path := path_Join L [Path u, accountType, uuid_String L accountID]\<rparr>))
                  None of
             Inl err \<Rightarrow> (Some err, s)
           | Inr req \<Rightarrow>
               (case HttpClient_Do P
                       (Header_Set (Header_Set req ''Content-Type'' ''application/json'')
                          ''Authorization'' (''Bearer '' @ Token c)) s of
                  (Inl err, s') \<Rightarrow> (Some err, s')
                | (Inr resp, s') \<Rightarrow>
                    if StatusCode resp = http_StatusOK then (None, s')
                    else if StatusCode resp \<noteq> http_StatusNotFound
                    then (Some (Errorf ''unexpected response from server: %s'' [AStr (Status resp)]), s')
                    else DeleteAccount_loop L P c accountID rest s')))"

definition DeleteAccount ::
  "lib \<Rightarrow> 'w platform \<Rightarrow> Client \<Rightarrow> uuid \<Rightarrow> 'w net \<Rightarrow> error option \<times> 'w net" where
  "DeleteAccount L P c accountID s = DeleteAccount_loop L P c accountID accountTypes s"

text \<open>
  The loop of \<^verbatim>\<open>ListAccounts\<close>, with the slice \<^verbatim>\<open>accounts\<close> collected so far as an
  accumulator; \<^verbatim>\<open>var accounts []Account\<close> starts it empty.
\<close>

fun ListAccounts_loop ::
  "lib \<Rightarrow> 'w platform \<Rightarrow> Client \<Rightarrow> string list \<Rightarrow> Account list \<Rightarrow> 'w net
     \<Rightarrow> (error + Account list) \<times> 'w net" where
  "ListAccounts_loop L P c [] accounts s = (Inr accounts, s)"
| "ListAccounts_loop L P c (accountType # rest) accounts s =
     (case url_Parse L (BaseURL c) of
        Inl err \<Rightarrow> (Inl err, s)
      | Inr u \<Rightarrow>
          (case http_NewRequest L ''GET''
                  (url_String L (u\<lparr>Path := path_Join L [Path u, accountType]\<rparr>)) None of
             Inl err \<Rightarrow> (Inl err, s)
           | Inr req \<Rightarrow>
               (case HttpClient_Do P
                       (Header_Set (Header_Set req ''Content-Type'' ''application/json'')
                          ''Authorization'' (''Bearer '' @ Token c)) s of
                  (Inl err, s') \<Rightarrow> (Inl err, s')
                | (Inr resp, s') \<Rightarrow>
                    if StatusCode resp \<noteq> http_StatusOK
                    then (Inl (Errorf ''bad response from server: %s'' [AStr (Status resp)]), s')
                    else (case io_ReadAll resp of
                            (body, Some err) \<Rightarrow> (Inl err, s')
                          | (body, None) \<Rightarrow>
                              (case Unmarshal_AccountList L body of
                                 Inl err \<Rightarrow> (Inl err, s')
                               | Inr accountList \<Rightarrow>
                                   ListAccounts_loop L P c rest (accounts @ accountList) s')))))"

definition ListAccounts ::
  "lib \<Rightarrow> 'w platform \<Rightarrow> Client \<Rightarrow> 'w net \<Rightarrow> (error + Account list) \<times> 'w net" where
  "ListAccounts L P c s = ListAccounts_loop L P c accountTypes [] s"

section \<open>\<^verbatim>\<open>tokens.go\<close>\<close>

definition fields_Token :: "Token \<Rightarrow> (tag \<times> gval) list" where
  "fields_Token t =
     [(Tag ''Plaintext'' False, GString (tok_Plaintext t)),
      (Tag ''Hash'' False, GBytes (tok_Hash t)),
      (Tag ''UserID'' False, GUUID (tok_UserID t)),
      (Tag ''Expiry'' False, GTime (tok_Expiry t)),
      (Tag ''Scope'' False, GString (tok_Scope t)),
      (Tag ''Error'' False, GError (tok_Error t))]"

text \<open>
  \<^verbatim>\<open>func (t *Token) Validate() error\<close>. The clock is read by the third check only, so a
  token that fails one of the first two leaves the world as it is.
\<close>

definition Token_Validate :: "'w platform \<Rightarrow> Token \<Rightarrow> 'w net \<Rightarrow> error option \<times> 'w net" where
  "Token_Validate P t s =
     (if tok_UserID t = uuid_Nil then (Some (ErrorsNew ''user ID is required''), s)
      else if tok_Scope t = [] then (Some (ErrorsNew ''scope is required''), s)
      else (case time_Now P s of
              (now, s') \<Rightarrow>
                if time_Before (tok_Expiry t) now
                then (Some (ErrorsNew ''expiry must be a future time''), s')
                else (None, s')))"

definition CreateToken ::
  "lib \<Rightarrow> 'w platform \<Rightarrow> Client \<Rightarrow> uuid \<Rightarrow> string \<Rightarrow> 'w net \<Rightarrow> (error + Token) \<times> 'w net" where
  "CreateToken L P c userID scope s =
     (case time_Now P s of
        (now, s1) \<Rightarrow>
          let payload = \<lparr>tok_Plaintext = [], tok_Hash = None, tok_UserID = userID,
                         tok_Expiry = time_Add now (time_Hour * 24), tok_Scope = scope,
                         tok_Error = None\<rparr> in
          (case Token_Validate P payload s1 of
             (Some err, s2) \<Rightarrow> (Inl err, s2)
           | (None, s2) \<Rightarrow>
               (case json_Marshal L (fields_Token payload) of
                  Inl err \<Rightarrow> (Inl err, s2)
                | Inr jsonPayload \<Rightarrow>
                    (case http_NewRequest L ''POST'' (BaseURL c @ ''/api/tokens'') (Some jsonPayload) of
                       Inl err \<Rightarrow> (Inl (Errorf ''unable to create new request: %w'' [AErr err]), s2)
                     | Inr req \<Rightarrow>
                         let req = Header_Set req ''Content-Type'' ''application/json'';
                             req = Header_Set req ''Authorization'' (''Bearer '' @ Token c);
                             req = Header_Set req ''X-API-Key'' (ApiKey c) in
                         (case HttpClient_Do P req s2 of
                            (Inl err, s3) \<Rightarrow> (Inl (Errorf ''unable to send request: %w'' [AErr err]), s3)
                          | (Inr res, s3) \<Rightarrow>
                              if StatusCode res \<noteq> http_StatusCreated
                              then (Inl (Errorf ''unexpected status code: got %v, body: %s''
                                           [AInt (StatusCode res), AStr (Body res)]), s3)
                              else (case Decode_Token L res of
                                      Inl err \<Rightarrow>
                                        (Inl (Errorf ''failed to decode response body: %w'' [AErr err]), s3)
                                    | Inr createdToken \<Rightarrow> (Inr createdToken, s3)))))))"

section \<open>\<^verbatim>\<open>account_memberships.go\<close>\<close>

definition fields_UpdateAccountMembershipEvent ::
  "UpdateAccountMembershipEvent \<Rightarrow> (tag \<times> gval) list" where
  "fields_UpdateAccountMembershipEvent e =
     [(Tag ''account_type'' True, GString (ev_AccountType e)),
      (Tag ''account_id'' True, GUUID (ev_AccountID e)),
      (Tag ''user_id'' True, GUUID (ev_UserID e)),
      (Tag ''role'' True, GString (ev_Role e))]"

definition UpdateAccountMembership ::
  "lib \<Rightarrow> 'w platform \<Rightarrow> Client \<Rightarrow> uuid \<Rightarrow> UpdateAccountMembershipEvent \<Rightarrow> 'w net
     \<Rightarrow> (error + AccountMembership) \<times> 'w net" where
  "UpdateAccountMembership L P c accountMembershipID event s =
     (case json_Marshal L (fields_UpdateAccountMembershipEvent event) of
        Inl err \<Rightarrow> (Inl (Errorf ''failed to convert event to JSON: %w'' [AErr err]), s)
      | Inr jsonEvent \<Rightarrow>
          (case http_NewRequest L ''PATCH''
                  (BaseURL c @ ''/account-memberships/'' @ uuid_String L accountMembershipID)
                  (Some jsonEvent) of
             Inl err \<Rightarrow> (Inl (Errorf ''failed to create request: %w'' [AErr err]), s)
           | Inr req \<Rightarrow>
               let req = Header_Set req ''Content-Type'' ''application/json'';
                   req = Header_Set req ''Authorization'' (''Bearer '' @ Token c) in
               (case HttpClient_Do P req s of
                  (Inl err, s') \<Rightarrow> (Inl (Errorf ''failed to send request: %w'' [AErr err]), s')
                | (Inr resp, s') \<Rightarrow>
                    if StatusCode resp \<noteq> http_StatusOK
                    then (Inl (Errorf ''received non-200 status code: %d'' [AInt (StatusCode resp)]), s')
                    else (case Decode_AccountMembership L resp of
                            Inl err \<Rightarrow> (Inl (Errorf ''failed to parse response: %w'' [AErr err]), s')
                          | Inr updatedAccountMembership \<Rightarrow> (Inr updatedAccountMembership, s')))))"

section \<open>The delete operations of the sub-clients\<close>

text \<open>
  Each function below is one \<^verbatim>\<open>Delete...\<close> method of \<^verbatim>\<open>Client\<close>, in the order of its source:
  the request is built, sent, and the status code of the response decides the result.
  \<^verbatim>\<open>body, _ := io.ReadAll(resp.Body)\<close> keeps the bytes read and drops the read error.
\<close>

subsection \<open>\<^verbatim>\<open>permissions.go\<close> and \<^verbatim>\<open>account_memberships.go\<close>\<close>

definition DeletePermission ::
  "lib \<Rightarrow> 'w platform \<Rightarrow> Client \<Rightarrow> uuid \<Rightarrow> 'w net \<Rightarrow> error option \<times> 'w net" where
  "DeletePermission L P c permissionID s =
     (if permissionID = uuid_Nil then (Some (ErrorsNew ''invalid permissionID''), s)
      else
        (case http_NewRequest L ''DELETE''
                (BaseURL c @ ''/api/permissions/'' @ uuid_String L permissionID) None of
           Inl err \<Rightarrow> (Some (Errorf ''unable to create new request: %w'' [AErr err]), s)
         | Inr req \<Rightarrow>
             let req = Header_Set req ''Content-Type'' ''application/json'';
                 req = Header_Set req ''Authorization'' (''Bearer '' @ Token c);
                 req = Header_Set req ''X-API-Key'' (ApiKey c) in
             (case HttpClient_Do P req s of
                (Inl err, s') \<Rightarrow> (Some (Errorf ''unable to send request: %w'' [AErr err]), s')
              | (Inr res, s') \<Rightarrow>
                  if StatusCode res \<noteq> http_StatusOK
                  then (Some (Errorf ''unexpected status code: got %v, body: %s''
                                [AInt (StatusCode res), AStr (fst (io_ReadAll res))]), s')
                  else (None, s'))))"

definition DeleteAccountMembership ::
  "lib \<Rightarrow> 'w platform \<Rightarrow> Client \<Rightarrow> uuid \<Rightarrow> uuid \<Rightarrow> 'w net \<Rightarrow> error option \<times> 'w net" where
  "DeleteAccountMembership L P c accountID userID s =
     (case http_NewRequest L ''DELETE''
             (BaseURL c @ ''/account-membership/'' @ uuid_String L accountID @ ''/user/''
                @ uuid_String L userID) None of
        Inl err \<Rightarrow> (Some err, s)
      | Inr req \<Rightarrow>
          let req = Header_Add req ''Authorization'' (''Bearer '' @ Token c);
              req = Header_Add req ''X-Api-Key'' (ApiKey c) in
          (case HttpClient_Do P req s of
             (Inl err, s') \<Rightarrow> (Some err, s')
           | (Inr res, s') \<Rightarrow>
               if StatusCode res \<noteq> http_StatusOK
               then (Some (Errorf ''server returned status %d: %s''
                             [AInt (StatusCode res), AStr (fst (io_ReadAll res))]), s')
               else (None, s')))"

subsection \<open>\<^verbatim>\<open>celebrity.go\<close>, \<^verbatim>\<open>agency.go\<close>, \<^verbatim>\<open>enterprise.go\<close>\<close>

definition DeleteCelebrityAccount ::
  "lib \<Rightarrow> 'w platform \<Rightarrow> Client \<Rightarrow> uuid \<Rightarrow> uuid \<Rightarrow> 'w net \<Rightarrow> error option \<times> 'w net" where
  "DeleteCelebrityAccount L P c userID celebrityID s =
     (case url_Parse L (BaseURL c) of
        Inl err \<Rightarrow> (Some err, s)
      | Inr u \<Rightarrow>
          let u = u\<lparr>Path := path_Join L [Path u, ''celebrity_account'']\<rparr>;
              q = url_Query L u;
              q = Values_Set q ''userID'' (uuid_String L userID);
              q = Values_Set q ''celebrityID'' (uuid_String L celebrityID);
              u = u\<lparr>RawQuery := Values_Encode L q\<rparr> in
          (case http_NewRequest L ''DELETE'' (url_String L u) None of
             Inl err \<Rightarrow> (Some err, s)
           | Inr req \<Rightarrow>
               let req = Header_Set req ''Authorization'' (''Bearer '' @ Token c) in
               (case HttpClient_Do P req s of
                  (Inl err, s') \<Rightarrow> (Some err, s')
                | (Inr resp, s') \<Rightarrow>
                    if StatusCode resp \<noteq> http_StatusOK
                    then (Some (Errorf ''could not delete celebrity account: %v, %s''
                                  [AStr (Status resp), AStr (fst (io_ReadAll resp))]), s')
                    else (case Decode_CelebrityResponse L resp of
                            Inl err \<Rightarrow> (Some (Errorf ''could not parse response: %v'' [AErr err]), s')
                          | Inr response \<Rightarrow>
                              if ccr_Status response \<noteq> ''success''
                              then (Some (Errorf ''failed to delete celebrity account: %s''
                                            [AStr (ccr_Message response)]), s')
                              else (None, s')))))"

definition DeleteAgencyAccount ::
  "lib \<Rightarrow> 'w platform \<Rightarrow> Client \<Rightarrow> uuid \<Rightarrow> 'w net \<Rightarrow> error option \<times> 'w net" where
  "DeleteAgencyAccount L P c agencyID s =
     (case url_Parse L (BaseURL c) of
        Inl err \<Rightarrow> (Some (Errorf ''error parsing base URL: %w'' [AErr err]), s)
      | Inr requestURL \<Rightarrow>
          let requestURL = requestURL\<lparr>Path :=
                path_Join L [Path requestURL, ''/api/agencies/'' @ uuid_String L agencyID]\<rparr> in
          (case http_NewRequest L ''DELETE'' (url_String L requestURL) None of
             Inl err \<Rightarrow> (Some (Errorf ''error creating new request: %w'' [AErr err]), s)
           | Inr req \<Rightarrow>
               let req = Header_Set req ''Authorization'' (''Bearer '' @ Token c);
                   req = Header_Set req ''X-Api-Key'' (ApiKey c) in
               (case HttpClient_Do P req s of
                  (Inl err, s') \<Rightarrow> (Some (Errorf ''error sending request: %w'' [AErr err]), s')
                | (Inr resp, s') \<Rightarrow>
                    if StatusCode resp < 200 \<or> StatusCode resp \<ge> 300
                    then (Some (Errorf ''non-2XX status code: %d. Response body: %s''
                                  [AInt (StatusCode resp), AStr (fst (io_ReadAll resp))]), s')
                    else (None, s'))))"

definition DeleteEnterpriseAccount ::
  "lib \<Rightarrow> 'w platform \<Rightarrow> Client \<Rightarrow> uuid \<Rightarrow> 'w net \<Rightarrow> error option \<times> 'w net" where
  "DeleteEnterpriseAccount L P c enterpriseID s =
     (case url_Parse L (BaseURL c) of
        Inl err \<Rightarrow> (Some err, s)
      | Inr u \<Rightarrow>
          let u = u\<lparr>Path := path_Join L [Path u, ''enterprise'', uuid_String L enterpriseID]\<rparr> in
          (case http_NewRequest L ''DELETE'' (url_String L u) None of
             Inl err \<Rightarrow> (Some err, s)
           | Inr req \<Rightarrow>
               let req = Header_Add req ''Authorization'' (''Bearer '' @ Token c) in
               (case HttpClient_Do P req s of
                  (Inl err, s') \<Rightarrow> (Some err, s')
                | (Inr resp, s') \<Rightarrow>
                    if StatusCode resp \<noteq> http_StatusOK
                    then (Some (Errorf ''DeleteEnterpriseAccount failed: %d %s''
                                  [AInt (StatusCode resp), AStr (fst (io_ReadAll resp))]), s')
                    else (None, s'))))"

subsection \<open>The government, business and service-account files\<close>

definition DeleteGovernmentAccount ::
  "lib \<Rightarrow> 'w platform \<Rightarrow> Client \<Rightarrow> uuid \<Rightarrow> 'w net \<Rightarrow> error option \<times> 'w net" where
  "DeleteGovernmentAccount L P c accountID s =
     (case url_Parse L (BaseURL c) of
        Inl err \<Rightarrow> (Some err, s)
      | Inr requestURL \<Rightarrow>
          let requestURL = requestURL\<lparr>Path :=
                path_Join L [Path requestURL, ''government'', uuid_String L accountID]\<rparr> in
          (case http_NewRequest L ''DELETE'' (url_String L requestURL) None of
             Inl err \<Rightarrow> (Some err, s)
           | Inr req \<Rightarrow>
               let req = Header_Set req ''Authorization'' (''Bearer '' @ Token c);
                   req = Header_Set req ''X-Api-Key'' (ApiKey c) in
               (case HttpClient_Do P req s of
                  (Inl err, s') \<Rightarrow> (Some err, s')
                | (Inr resp, s') \<Rightarrow>
                    if StatusCode resp \<noteq> http_StatusOK
                    then (Some (ErrorsNew (fst (io_ReadAll resp))), s')
                    else (None, s'))))"

definition DeleteBusinessAccount ::
  "lib \<Rightarrow> 'w platform \<Rightarrow> Client \<Rightarrow> uuid \<Rightarrow> 'w net \<Rightarrow> error option \<times> 'w net" where
  "DeleteBusinessAccount L P c businessID s =
     (case url_Parse L (BaseURL c) of
        Inl err \<Rightarrow> (Some (Errorf ''invalid base URL: %v'' [AErr err]), s)
      | Inr u \<Rightarrow>
          let u = u\<lparr>Path := path_Join L [Path u, ''business'', uuid_String L businessID]\<rparr> in
          (case http_NewRequest L ''DELETE'' (url_String L u) None of
             Inl err \<Rightarrow> (Some (Errorf ''could not create HTTP request: %v'' [AErr err]), s)
           | Inr req \<Rightarrow>
               let req = (if Token c \<noteq> []
                          then Header_Add req ''Authorization'' (''Bearer '' @ Token c) else req);
                   req = (if ApiKey c \<noteq> []
                          then Header_Add req ''X-Api-Key'' (ApiKey c) else req) in
               (case HttpClient_Do P req s of
                  (Inl err, s') \<Rightarrow> (Some (Errorf ''could not send HTTP request: %v'' [AErr err]), s')
                | (Inr resp, s') \<Rightarrow>
                    if StatusCode resp \<noteq> http_StatusOK
                    then (Some (Errorf ''unexpected HTTP status: %s'' [AStr (Status resp)]), s')
                    else (None, s'))))"

definition DeleteServiceAccount ::
  "lib \<Rightarrow> 'w platform \<Rightarrow> Client \<Rightarrow> uuid \<Rightarrow> 'w net \<Rightarrow> error option \<times> 'w net" where
  "DeleteServiceAccount L P c serviceAccountID s =
     (case http_NewRequest L ''DELETE''
             (BaseURL c @ ''/api/service-accounts/'' @ uuid_String L serviceAccountID) None of
        Inl err \<Rightarrow> (Some (Errorf ''unable to create new request: %w'' [AErr err]), s)
      | Inr req \<Rightarrow>
          let req = Header_Set req ''Content-Type'' ''application/json'';
              req = Header_Set req ''Authorization'' (''Bearer '' @ Token c);
              req = Header_Set req ''X-API-Key'' (ApiKey c) in
          (case HttpClient_Do P req s of
             (Inl err, s') \<Rightarrow> (Some (Errorf ''unable to send request: %w'' [AErr err]), s')
           | (Inr res, s') \<Rightarrow>
               if StatusCode res \<noteq> http_StatusOK
               then (Some (Errorf ''unexpected status code: got %v, body: %s''
                             [AInt (StatusCode res), AStr (fst (io_ReadAll res))]), s')
               else (None, s')))"

subsection \<open>\<^verbatim>\<open>tokens.go\<close>\<close>

definition DeleteToken ::
  "lib \<Rightarrow> 'w platform \<Rightarrow> Client \<Rightarrow> uuid \<Rightarrow> uuid \<Rightarrow> 'w net \<Rightarrow> error option \<times> 'w net" where
  "DeleteToken L P c userID tokenID s =
     (if userID = uuid_Nil then (Some (ErrorsNew ''user ID must be non-nil UUID''), s)
      else if tokenID = uuid_Nil then (Some (ErrorsNew ''token ID must be non-nil UUID''), s)
      else
        (case url_Parse L (BaseURL c) of
           Inl err \<Rightarrow> (Some (Errorf ''unable to parse base URL: %w'' [AErr err]), s)
         | Inr reqURL \<Rightarrow>
             let reqURL = reqURL\<lparr>Path :=
                   path_Join L [Path reqURL, ''api'', ''users'', uuid_String L userID, ''tokens'',
                                uuid_String L tokenID]\<rparr> in
             (case http_NewRequest L ''DELETE'' (url_String L reqURL) None of
                Inl err \<Rightarrow> (Some (Errorf ''unable to create new request: %w'' [AErr err]), s)
              | Inr req \<Rightarrow>
                  let req = Header_Set req ''Content-Type'' ''application/json'';
                      req = Header_Set req ''Authorization'' (''Bearer '' @ Token c);
                      req = Header_Set req ''X-API-Key'' (ApiKey c) in
                  (case HttpClient_Do P req s of
                     (Inl err, s') \<Rightarrow> (Some (Errorf ''unable to send request: %w'' [AErr err]), s')
                   | (Inr res, s') \<Rightarrow>
                       if StatusCode res \<noteq> http_StatusNoContent
                       then (Some (Errorf ''unexpected status code: got %v, body: %s''
                                     [AInt (StatusCode res), AStr (fst (io_ReadAll res))]), s')
                       else (None, s')))))"

definition DeleteTokensByUserID ::
  "lib \<Rightarrow> 'w platform \<Rightarrow> Client \<Rightarrow> uuid \<Rightarrow> 'w net \<Rightarrow> error option \<times> 'w net" where
  "DeleteTokensByUserID L P c userID s =
     (case http_NewRequest L ''DELETE'' (BaseURL c @ ''/api/tokens/'' @ uuid_String L userID) None of
        Inl err \<Rightarrow> (Some (Errorf ''unable to create new request: %w'' [AErr err]), s)
      | Inr req \<Rightarrow>
          let req = Header_Set req ''Content-Type'' ''application/json'';
              req = Header_Set req ''Authorization'' (''Bearer '' @ Token c);
              req = Header_Set req ''X-API-Key'' (ApiKey c) in
          (case HttpClient_Do P req s of
             (Inl err, s') \<Rightarrow> (Some (Errorf ''unable to send request: %w'' [AErr err]), s')
           | (Inr res, s') \<Rightarrow>
               if StatusCode res \<noteq> http_StatusOK
               then (Some (Errorf ''unexpected status code: got %v, body: %s''
                             [AInt (StatusCode res), AStr (fst (io_ReadAll res))]), s')
               else (None, s')))"

text \<open>
  \<^verbatim>\<open>func (c *Client) Validate() error\<close>: the validator's rule \<^verbatim>\<open>Required\<close> rejects an empty
  string, and \<^verbatim>\<open>is.URL\<close> is applied to a non-empty \<^verbatim>\<open>BaseURL\<close>.
\<close>

definition Client_Validate :: "lib \<Rightarrow> Client \<Rightarrow> error option" where
  "Client_Validate L c =
     (let failed = (if Token c = [] then [''Token''] else [])
                 @ (if ApiKey c = [] then [''ApiKey''] else [])
                 @ (if BaseURL c = [] \<or> \<not> is_URL L (BaseURL c) then [''BaseURL''] else [])
      in if failed = [] then None else Some (ValidationErrors failed))"

definition DeleteExpiredTokens ::
  "lib \<Rightarrow> 'w platform \<Rightarrow> Client \<Rightarrow> 'w net \<Rightarrow> error option \<times> 'w net" where
  "DeleteExpiredTokens L P c s =
     (case Client_Validate L c of
        Some err \<Rightarrow> (Some (Errorf ''client validation failed: %w'' [AErr err]), s)
      | None \<Rightarrow>
          (case http_NewRequest L ''DELETE'' (BaseURL c @ ''/api/tokens/expired'') None of
             Inl err \<Rightarrow> (Some (Errorf ''unable to create new request: %w'' [AErr err]), s)
           | Inr req \<Rightarrow>
               let req = Header_Set req ''Content-Type'' ''application/json'';
                   req = Header_Set req ''Authorization'' (''Bearer '' @ Token c);
                   req = Header_Set req ''X-API-Key'' (ApiKey c) in
               (case HttpClient_Do P req s of
                  (Inl err, s') \<Rightarrow> (Some (Errorf ''unable to send request: %w'' [AErr err]), s')
                | (Inr res, s') \<Rightarrow>
                    if StatusCode res \<noteq> http_StatusOK
                    then (Some (Errorf ''unexpected status code: got %v, body: %s''
                                  [AInt (StatusCode res), AStr (fst (io_ReadAll res))]), s')
                    else (None, s'))))"

subsection \<open>\<^verbatim>\<open>account_links.go\<close>\<close>

text \<open>
  \<^verbatim>\<open>DeleteAccountLink\<close> takes a pointer and reads its fields at once, so a nil pointer
  panics: the result is \<open>None\<close> then, and \<open>Some\<close> of the returned error otherwise.
\<close>

definition DeleteAccountLink ::
  "lib \<Rightarrow> 'w platform \<Rightarrow> Client \<Rightarrow> AccountLinkRequest option \<Rightarrow> 'w net
     \<Rightarrow> error option option \<times> 'w net" where
  "DeleteAccountLink L P c accountLinkRequest s =
     (case accountLinkRequest of
        None \<Rightarrow> (None, s)
      | Some r \<Rightarrow>
          (case http_NewRequest L ''DELETE''
                  (BaseURL c @ ''/users/'' @ uuid_String L (alr_UserID r) @ ''/accounts/''
                     @ uuid_String L (alr_AccountID r) @ ''?type='' @ alr_AccountType r) None of
             Inl err \<Rightarrow> (Some (Some (Errorf ''failed to create request: %w'' [AErr err])), s)
           | Inr req \<Rightarrow>
               let req = Header_Add req ''Authorization'' (''Bearer '' @ Token c) in
               (case HttpClient_Do P req s of
                  (Inl err, s') \<Rightarrow> (Some (Some (Errorf ''DeleteAccountLink failed: %w'' [AErr err])), s')
                | (Inr res, s') \<Rightarrow>
                    if StatusCode res \<noteq> http_StatusOK
                    then (case io_ReadAll res of
                            (body, Some readErr) \<Rightarrow>
                              (Some (Some (Errorf ''failed reading server response: %w''
                                             [AErr readErr])), s')
                          | (body, None) \<Rightarrow>
                              (Some (Some (Errorf
                                 ''DeleteAccountLink returned a non-200 status code, response: %s''
                                 [AStr body])), s'))
                    else (Some None, s'))))"

section \<open>The service-account file: what is written for a \<^verbatim>\<open>ServiceAccount\<close>\<close>

definition fields_ServiceAccount :: "ServiceAccount \<Rightarrow> (tag \<times> gval) list" where
  "fields_ServiceAccount a =
     [(Tag ''id'' False, GUUID (sa_ID a)),
      (Dash, GString (sa_Secret a)),
      (Tag ''service_name'' False, GString (sa_ServiceName a)),
      (Tag ''roles'' False, GStrings (sa_Roles a)),
      (Tag ''created_at'' False, GTime (sa_CreatedAt a)),
      (Tag ''expires_at'' True, GTimePtr (sa_ExpiresAt a))]"

definition UpdateServiceAccount ::
  "lib \<Rightarrow> 'w platform \<Rightarrow> Client \<Rightarrow> ServiceAccount option \<Rightarrow> 'w net \<Rightarrow> error option \<times> 'w net" where
  "UpdateServiceAccount L P c serviceAccount s =
     (case serviceAccount of
        None \<Rightarrow> (Some (ErrorsNew ''serviceAccount cannot be nil''), s)
      | Some a \<Rightarrow>
          if sa_ID a = uuid_Nil then (Some (ErrorsNew ''service account ID is required''), s)
          else if sa_ServiceName a = [] then (Some (ErrorsNew ''service account name is required''), s)
          else if (case sa_Roles a of None \<Rightarrow> True | Some rs \<Rightarrow> length rs = 0)
          then (Some (ErrorsNew ''at least one role is required for the service account''), s)
          else
            (case json_Marshal L (fields_ServiceAccount a) of
               Inl err \<Rightarrow> (Some (Errorf ''unable to marshal service account: %w'' [AErr err]), s)
             | Inr jsonPayload \<Rightarrow>
                 (case http_NewRequest L ''PUT''
                         (BaseURL c @ ''/api/service-accounts/'' @ uuid_String L (sa_ID a))
                         (Some jsonPayload) of
                    Inl err \<Rightarrow> (Some (Errorf ''unable to create new request: %w'' [AErr err]), s)
                  | Inr req \<Rightarrow>
                      let req = Header_Set req ''Content-Type'' ''application/json'';
                          req = Header_Set req ''Authorization'' (''Bearer '' @ Token c);
                          req = Header_Set req ''X-API-Key'' (ApiKey c) in
                      (case HttpClient_Do P req s of
                         (Inl err, s') \<Rightarrow> (Some (Errorf ''unable to send request: %w'' [AErr err]), s')
                       | (Inr res, s') \<Rightarrow>
                           if StatusCode res \<noteq> http_StatusOK
                           then (Some (Errorf ''unexpected status code: got %v, body: %s''
                                         [AInt (StatusCode res), AStr (fst (io_ReadAll res))]), s')
                           else (None, s')))))"

section \<open>Notions used to state the properties\<close>

subsection \<open>Which identifiers of an input are populated\<close>

definition ids_Create :: "CreateAccountInput \<Rightarrow> uuid option list" where
  "ids_Create i = [cai_UserID i, cai_AgencyID i, cai_CelebrityID i, cai_BusinessID i,
                   cai_EnterpriseID i, cai_GovernmentID i]"

definition ids_Update :: "UpdateAccountInput \<Rightarrow> uuid option list" where
  "ids_Update i = [uai_UserID i, uai_AgencyID i, uai_CelebrityID i, uai_BusinessID i,
                   uai_EnterpriseID i, uai_GovernmentID i]"

definition ids_Search :: "SearchAccountInput \<Rightarrow> uuid option list" where
  "ids_Search i = [sai_UserID i, sai_AgencyID i, sai_CelebrityID i, sai_BusinessID i,
                   sai_EnterpriseID i, sai_GovernmentID i]"

text \<open>
  The kinds whose identifier is non-nil, in the order user, agency, celebrity, business,
  enterprise, government.
\<close>

definition populated :: "uuid option list \<Rightarrow> string list" where
  "populated ids = map fst (filter (\<lambda>(k, x). x \<noteq> None) (zip accountTypes ids))"

definition KindUndetermined :: error where
  "KindUndetermined = Errorf ''could not determine the account type'' []"

definition AccountNotFound :: error where
  "AccountNotFound = Errorf ''account not found'' []"

subsection \<open>What the server answers to a sequence of requests\<close>

text \<open>
  \<open>serve P reqs w\<close> hands the requests to the transport one after the other, starting in
  the world \<open>w\<close>, and returns the outcomes in order and the world they leave.
\<close>

fun serve :: "'w platform \<Rightarrow> request list \<Rightarrow> 'w \<Rightarrow> (error + response) list \<times> 'w" where
  "serve P [] w = ([], w)"
| "serve P (req # reqs) w =
     (case transport P req w of
        (out, w') \<Rightarrow> (case serve P reqs w' of (outs, w'') \<Rightarrow> (out # outs, w'')))"

definition has_status :: "int \<Rightarrow> error + response \<Rightarrow> bool" where
  "has_status n out = (case out of Inl err \<Rightarrow> False | Inr resp \<Rightarrow> StatusCode resp = n)"

text \<open>An outcome that \<^verbatim>\<open>ListAccounts\<close> decodes to the list \<open>l\<close>.\<close>

definition lists :: "lib \<Rightarrow> error + response \<Rightarrow> Account list \<Rightarrow> bool" where
  "lists L out l =
     (case out of
        Inl err \<Rightarrow> False
      | Inr resp \<Rightarrow> StatusCode resp = 200 \<and> BodyErr resp = None
                    \<and> Unmarshal_AccountList L (Body resp) = Inr l)"

text \<open>
  The request \<^verbatim>\<open>DeleteAccount\<close> builds for one kind, and the one \<^verbatim>\<open>ListAccounts\<close> builds,
  from the parsed base URL \<open>u\<close>.
\<close>

definition delete_request :: "lib \<Rightarrow> Client \<Rightarrow> uuid \<Rightarrow> url \<Rightarrow> string \<Rightarrow> request" where
  "delete_request L c accountID u accountType =
     \<lparr>Method = ''DELETE'',
      URL = url_String L (u\<lparr>Path := path_Join L [Path u, accountType, uuid_String L accountID]\<rparr>),
      Header = [(''Content-Type'', ''application/json''), (''Authorization'', ''Bearer '' @ Token c)],
      ReqBody = None\<rparr>"

definition list_request :: "lib \<Rightarrow> Client \<Rightarrow> url \<Rightarrow> string \<Rightarrow> request" where
  "list_request L c u accountType =
     \<lparr>Method = ''GET'',
      URL = url_String L (u\<lparr>Path := path_Join L [Path u, accountType]\<rparr>),
      Header = [(''Content-Type'', ''application/json''), (''Authorization'', ''Bearer '' @ Token c)],
      ReqBody = None\<rparr>"

text \<open>A request that \<^verbatim>\<open>http.NewRequest\<close> accepts.\<close>

definition can_build :: "lib \<Rightarrow> request \<Rightarrow> bool" where
  "can_build L req = (NewRequest_err L (Method req) (URL req) = None)"

text \<open>
  The request \<^verbatim>\<open>UpdateAccountMembership\<close> builds around the document \<open>doc\<close>, and the one
  \<^verbatim>\<open>UpdateAccount\<close> builds from the parsed base URL \<open>u\<close>.
\<close>

definition patch_request :: "lib \<Rightarrow> Client \<Rightarrow> uuid \<Rightarrow> json \<Rightarrow> request" where
  "patch_request L c accountMembershipID doc =
     \<lparr>Method = ''PATCH'',
      URL = BaseURL c @ ''/account-memberships/'' @ uuid_String L accountMembershipID,
      Header = [(''Content-Type'', ''application/json''), (''Authorization'', ''Bearer '' @ Token c)],
      ReqBody = Some doc\<rparr>"

definition put_request :: "lib \<Rightarrow> Client \<Rightarrow> uuid \<Rightarrow> url \<Rightarrow> string \<Rightarrow> json \<Rightarrow> request" where
  "put_request L c accountID u accountType doc =
     \<lparr>Method = ''PUT'',
      URL = url_String L (u\<lparr>Path := path_Join L [Path u, accountType, uuid_String L accountID]\<rparr>),
      Header = [(''Content-Type'', ''application/json''), (''Authorization'', ''Bearer '' @ Token c)],
      ReqBody = Some doc\<rparr>"

text \<open>The payload \<^verbatim>\<open>CreateToken\<close> composes when the clock reads \<open>now\<close>, and its request.\<close>

definition token_payload :: "uuid \<Rightarrow> string \<Rightarrow> time \<Rightarrow> Token" where
  "token_payload userID scope now =
     \<lparr>tok_Plaintext = [], tok_Hash = None, tok_UserID = userID,
      tok_Expiry = now + 24 * 3600 * 1000000000, tok_Scope = scope, tok_Error = None\<rparr>"

definition token_request :: "Client \<Rightarrow> json \<Rightarrow> request" where
  "token_request c doc =
     \<lparr>Method = ''POST'', URL = BaseURL c @ ''/api/tokens'',
      Header = [(''Content-Type'', ''application/json''), (''Authorization'', ''Bearer '' @ Token c),
                (''X-API-Key'', ApiKey c)],
      ReqBody = Some doc\<rparr>"

text \<open>
  The outcome of the one request sent between the states \<open>s\<close> and \<open>s'\<close>, when exactly one
  was sent.
\<close>

definition answered :: "'w platform \<Rightarrow> 'w net \<Rightarrow> 'w net \<Rightarrow> (error + response) option" where
  "answered P s s' =
     (if length (sent s') = Suc (length (sent s)) \<and> take (length (sent s)) (sent s') = sent s
      then Some (fst (transport P (last (sent s')) (world s)))
      else None)"

text \<open>Whether an error value carries the text \<open>b\<close> among its arguments, or as its message.\<close>

fun carries :: "string \<Rightarrow> error \<Rightarrow> bool" where
  "carries b (ErrorsNew msg) = (msg = b)"
| "carries b (Errorf f args) = (AStr b \<in> set args)"
| "carries b (ValidationErrors fs) = False"

text \<open>
  How a delete operation judges a response: it returns \<^verbatim>\<open>nil\<close> exactly when the status code
  satisfies \<open>ok\<close>, and an error it returns carries the body of the response.
\<close>

definition judged :: "(int \<Rightarrow> bool) \<Rightarrow> response \<Rightarrow> error option \<Rightarrow> bool" where
  "judged ok resp r =
     (case r of None \<Rightarrow> ok (StatusCode resp)
              | Some e \<Rightarrow> \<not> ok (StatusCode resp) \<and> carries (Body resp) e)"

section \<open>A scripted transport\<close>

text \<open>
  A world for running the operations on concrete inputs: it counts the requests answered
  and the clock readings taken. The transport answers the \<open>i\<close>-th request with the
  \<open>i\<close>-th outcome of a script, the clock returns the \<open>j\<close>-th instant of a list.
\<close>

definition scripted :: "(error + response) list \<Rightarrow> time list \<Rightarrow> (nat \<times> nat) platform" where
  "scripted script instants =
     \<lparr>transport = (\<lambda>req (i, j).
         (if i < length script then script ! i else Inl (ErrorsNew ''connection refused''),
          (Suc i, j))),
      clock = (\<lambda>(i, j). (if j < length instants then instants ! j else 0, (i, Suc j)))\<rparr>"

definition answer :: "int \<Rightarrow> string \<Rightarrow> error + response" where
  "answer code body = Inr \<lparr>StatusCode = code, Status = ''status'', Body = body, BodyErr = None\<rparr>"

definition acct :: "uuid \<Rightarrow> Account" where
  "acct i = \<lparr>acc_ID = i, acc_UserID = Some i, acc_AgencyID = None, acc_CelebrityID = None,
             acc_BusinessID = None, acc_EnterpriseID = None, acc_GovernmentID = None\<rparr>"

text \<open>
  A library for the same purpose: every base URL parses, every request can be built, and a
  body of \<open>n\<close> characters decodes to a list of \<open>n\<close> accounts.
\<close>

definition lib0 :: lib where
  "lib0 =
     \<lparr>url_Parse = (\<lambda>b. Inr \<lparr>Scheme = ''https'', Host = b, Path = [], RawQuery = []\<rparr>),
      url_String = (\<lambda>u. Host u @ Path u),
      url_Query = (\<lambda>u. []),
      Values_Encode = (\<lambda>vs. concat (map fst vs)),
      path_Join = (\<lambda>es. concat (map (\<lambda>e. CHR ''/'' # e) (filter (\<lambda>e. e \<noteq> []) es))),
      NewRequest_err = (\<lambda>m u. None),
      uuid_String = (\<lambda>i. if i = 0 then ''00000000-0000-0000-0000-000000000000'' else ''id''),
      time_MarshalJSON = (\<lambda>t. Inr ''instant''),
      is_URL = (\<lambda>b. True),
      base64_EncodeToString = (\<lambda>bs. []),
      Marshal_error = (\<lambda>e. Inr (JObject [])),
      Unmarshal_Account = (\<lambda>b. Inr (acct 1)),
      Unmarshal_AccountList = (\<lambda>b. Inr (map (\<lambda>ch. acct 1) b)),
      Unmarshal_Accounts = (\<lambda>b. Inr []),
      Decode_Token = (\<lambda>r. Inl (ErrorsNew ''EOF'')),
      Decode_AccountMembership = (\<lambda>r. Inl (ErrorsNew ''EOF'')),
      Decode_CelebrityResponse =
        (\<lambda>r. Inr \<lparr>ccr_CelebrityID = 1, ccr_Status = Body r, ccr_Message = []\<rparr>)\<rparr>"

definition client0 :: Client where
  "client0 = \<lparr>BaseURL = ''https://accounts.example'', Token = ''t'', ApiKey = ''k''\<rparr>"

text \<open>Inputs given by their six identifiers, in the order of the struct.\<close>

definition create_of ::
  "uuid option \<Rightarrow> uuid option \<Rightarrow> uuid option \<Rightarrow> uuid option \<Rightarrow> uuid option \<Rightarrow> uuid option
     \<Rightarrow> CreateAccountInput" where
  "create_of a b c d e f =
     \<lparr>cai_UserID = a, cai_AgencyID = b, cai_CelebrityID = c, cai_BusinessID = d,
      cai_EnterpriseID = e, cai_GovernmentID = f\<rparr>"

definition update_of ::
  "uuid option \<Rightarrow> uuid option \<Rightarrow> uuid option \<Rightarrow> uuid option \<Rightarrow> uuid option \<Rightarrow> uuid option
     \<Rightarrow> UpdateAccountInput" where
  "update_of a b c d e f =
     \<lparr>uai_UserID = a, uai_AgencyID = b, uai_CelebrityID = c, uai_BusinessID = d,
      uai_EnterpriseID = e, uai_GovernmentID = f\<rparr>"

definition search_of ::
  "uuid option \<Rightarrow> uuid option \<Rightarrow> uuid option \<Rightarrow> uuid option \<Rightarrow> uuid option \<Rightarrow> uuid option
     \<Rightarrow> SearchAccountInput" where
  "search_of a b c d e f =
     \<lparr>sai_UserID = a, sai_AgencyID = b, sai_CelebrityID = c, sai_BusinessID = d,
      sai_EnterpriseID = e, sai_GovernmentID = f\<rparr>"

definition net0 :: "(nat \<times> nat) net" where
  "net0 = \<lparr>world = (0, 0), sent = []\<rparr>"

definition url0 :: url where
  "url0 = \<lparr>Scheme = ''https'', Host = ''https://accounts.example'', Path = [], RawQuery = []\<rparr>"

text \<open>
  Two servers: one that knows the account under the kind business only, and one that does
  not know it at all.
\<close>

definition answers_business :: "(error + response) list" where
  "answers_business = [answer 404 [], answer 404 [], answer 404 [], answer 200 []]"

definition answers_nowhere :: "(error + response) list" where
  "answers_nowhere = [answer 404 [], answer 404 [], answer 404 [], answer 404 [], answer 404 [],
                      answer 404 []]"

text \<open>
  A server that fails on the second request, one that lists accounts for every kind (an
  empty list for celebrity), and two that fail the second list request.
\<close>

definition answers_broken :: "(error + response) list" where
  "answers_broken = [answer 404 [], answer 500 ''boom'']"

definition answers_lists :: "(error + response) list" where
  "answers_lists = [answer 200 ''ab'', answer 200 ''c'', answer 200 [], answer 200 ''d'',
                    answer 200 ''ef'', answer 200 ''g'']"

definition answers_list_500 :: "(error + response) list" where
  "answers_list_500 = [answer 200 ''ab'', answer 500 ''boom'']"

definition answers_list_timeout :: "(error + response) list" where
  "answers_list_timeout = [answer 200 ''ab'', Inl (ErrorsNew ''timeout'')]"

text \<open>Two service accounts that differ in their secret only, and a membership update that
  sets the role only.\<close>

definition service0 :: ServiceAccount where
  "service0 = \<lparr>sa_ID = 1, sa_Secret = ''hunter2'', sa_ServiceName = ''billing'',
               sa_Roles = Some [''admin''], sa_CreatedAt = 0, sa_ExpiresAt = None\<rparr>"

definition service1 :: ServiceAccount where
  "service1 = \<lparr>sa_ID = 1, sa_Secret = ''correct horse'', sa_ServiceName = ''billing'',
               sa_Roles = Some [''admin''], sa_CreatedAt = 0, sa_ExpiresAt = None\<rparr>"

definition role_only :: UpdateAccountMembershipEvent where
  "role_only = \<lparr>ev_AccountType = [], ev_AccountID = uuid_Nil, ev_UserID = uuid_Nil,
                ev_Role = ''admin''\<rparr>"

definition agency_only :: UpdateAccountInput where
  "agency_only = update_of None (Some 7) None None None None"

definition answers_ok :: "(error + response) list" where
  "answers_ok = [answer 200 []]"

definition type_only :: UpdateAccountMembershipEvent where
  "type_only = \<lparr>ev_AccountType = ''agency'', ev_AccountID = 3, ev_UserID = 4, ev_Role = []\<rparr>"

text \<open>A server that answers 201, and the length of a day in nanoseconds.\<close>

definition answers_created :: "(error + response) list" where
  "answers_created = [answer 201 []]"

definition day :: int where
  "day = 86400000000000"

section \<open>Properties: kind resolution\<close>

text \<open>
  Each \<^verbatim>\<open>GetAccountType\<close> returns the first populated kind in the order user, agency,
  celebrity, business, enterprise, government, and the empty string when none is.
\<close>

lemma resolves_Create:
  "GetAccountType_Create i = (case populated (ids_Create i) of [] \<Rightarrow> [] | k # ks \<Rightarrow> k)"
  by (simp add: populated_def ids_Create_def accountTypes_def GetAccountType_Create_def)

lemma resolves_Update:
  "GetAccountType_Update i = (case populated (ids_Update i) of [] \<Rightarrow> [] | k # ks \<Rightarrow> k)"
  by (simp add: populated_def ids_Update_def accountTypes_def GetAccountType_Update_def)

lemma resolves_Search:
  "GetAccountType_Search i = (case populated (ids_Search i) of [] \<Rightarrow> [] | k # ks \<Rightarrow> k)"
  by (simp add: populated_def ids_Search_def accountTypes_def GetAccountType_Search_def)

text \<open>
  The callers turn the empty string into the error \<open>KindUndetermined\<close>, after the base
  URL has parsed and before anything is sent.
\<close>

lemma undetermined_Create:
  "url_Parse L (BaseURL c) = Inr u \<Longrightarrow> populated (ids_Create i) = [] \<Longrightarrow>
   CreateAccount L P c i s = (Inl KindUndetermined, s)"
  by (simp add: CreateAccount_def KindUndetermined_def resolves_Create)

lemma undetermined_Update:
  "url_Parse L (BaseURL c) = Inr u \<Longrightarrow> populated (ids_Update i) = [] \<Longrightarrow>
   UpdateAccount L P c a i s = (Inl KindUndetermined, s)"
  by (simp add: UpdateAccount_def KindUndetermined_def resolves_Update)

lemma undetermined_Search:
  "url_Parse L (BaseURL c) = Inr u \<Longrightarrow> populated (ids_Search i) = [] \<Longrightarrow>
   SearchAccounts L P c i s = (Inl KindUndetermined, s)"
  by (simp add: SearchAccounts_def KindUndetermined_def resolves_Search)

text \<open>
  C1. For each of the three input structs: when exactly one identifier is non-nil,
  \<^verbatim>\<open>GetAccountType\<close> returns the tag of that kind; when several are, it returns the tag of
  the first one in the order user, agency, celebrity, business, enterprise, government;
  when all six are nil it returns the empty string, which \<^verbatim>\<open>CreateAccount\<close>,
  \<^verbatim>\<open>UpdateAccount\<close> and \<^verbatim>\<open>SearchAccounts\<close> report as the error "could not determine the
  account type" without sending a request.
\<close>

theorem GetAccountType_resolves:
  "(\<forall>k. populated (ids_Create ci) = [k] \<longrightarrow> GetAccountType_Create ci = k) \<and>
   (\<forall>k ks. populated (ids_Create ci) = k # ks \<longrightarrow> GetAccountType_Create ci = k) \<and>
   (populated (ids_Create ci) = [] \<longrightarrow>
      GetAccountType_Create ci = [] \<and>
      (\<forall>L P c s u. url_Parse L (BaseURL c) = Inr u \<longrightarrow>
         CreateAccount L (P :: 'w platform) c ci s = (Inl KindUndetermined, s))) \<and>
   (\<forall>k. populated (ids_Update ui) = [k] \<longrightarrow> GetAccountType_Update ui = k) \<and>
   (\<forall>k ks. populated (ids_Update ui) = k # ks \<longrightarrow> GetAccountType_Update ui = k) \<and>
   (populated (ids_Update ui) = [] \<longrightarrow>
      GetAccountType_Update ui = [] \<and>
      (\<forall>L P c a s u. url_Parse L (BaseURL c) = Inr u \<longrightarrow>
         UpdateAccount L (P :: 'w platform) c a ui s = (Inl KindUndetermined, s))) \<and>
   (\<forall>k. populated (ids_Search si) = [k] \<longrightarrow> GetAccountType_Search si = k) \<and>
   (\<forall>k ks. populated (ids_Search si) = k # ks \<longrightarrow> GetAccountType_Search si = k) \<and>
   (populated (ids_Search si) = [] \<longrightarrow>
      GetAccountType_Search si = [] \<and>
      (\<forall>L P c s u. url_Parse L (BaseURL c) = Inr u \<longrightarrow>
         SearchAccounts L (P :: 'w platform) c si s = (Inl KindUndetermined, s)))"
  by (auto simp: resolves_Create resolves_Update resolves_Search
        intro: undetermined_Create undetermined_Update undetermined_Search)

theorem GetAccountType_resolves_witness:
  "url_Parse lib0 (BaseURL client0) = Inr \<lparr>Scheme = ''https'', Host = ''https://accounts.example'', Path = [], RawQuery = []\<rparr> \<and>
   populated (ids_Create (create_of None (Some 7) None None None None)) = [''agency''] \<and>
   GetAccountType_Create (create_of None (Some 7) None None None None) = ''agency'' \<and>
   populated (ids_Create (create_of None None (Some 3) None None (Some 4))) = [''celebrity'', ''government''] \<and>
   GetAccountType_Create (create_of None None (Some 3) None None (Some 4)) = ''celebrity'' \<and>
   populated (ids_Create (create_of None None None None None None)) = [] \<and>
   GetAccountType_Create (create_of None None None None None None) = [] \<and>
   CreateAccount lib0 (scripted [] []) client0 (create_of None None None None None None) net0 = (Inl KindUndetermined, net0) \<and>
   populated (ids_Update (update_of None (Some 7) None None None None)) = [''agency''] \<and>
   GetAccountType_Update (update_of None (Some 7) None None None None) = ''agency'' \<and>
   populated (ids_Update (update_of None None (Some 3) None None (Some 4))) = [''celebrity'', ''government''] \<and>
   GetAccountType_Update (update_of None None (Some 3) None None (Some 4)) = ''celebrity'' \<and>
   populated (ids_Update (update_of None None None None None None)) = [] \<and>
   GetAccountType_Update (update_of None None None None None None) = [] \<and>
   UpdateAccount lib0 (scripted [] []) client0 5 (update_of None None None None None None) net0 = (Inl KindUndetermined, net0) \<and>
   populated (ids_Search (search_of None (Some 7) None None None None)) = [''agency''] \<and>
   GetAccountType_Search (search_of None (Some 7) None None None None) = ''agency'' \<and>
   populated (ids_Search (search_of None None (Some 3) None None (Some 4))) = [''celebrity'', ''government''] \<and>
   GetAccountType_Search (search_of None None (Some 3) None None (Some 4)) = ''celebrity'' \<and>
   populated (ids_Search (search_of None None None None None None)) = [] \<and>
   GetAccountType_Search (search_of None None None None None None) = [] \<and>
   SearchAccounts lib0 (scripted [] []) client0 (search_of None None None None None None) net0 = (Inl KindUndetermined, net0)"
proof -
  have parse: "url_Parse lib0 (BaseURL client0) = Inr \<lparr>Scheme = ''https'', Host = ''https://accounts.example'', Path = [], RawQuery = []\<rparr>"
    by (simp add: lib0_def client0_def)
  have one: "populated (ids_Create (create_of None (Some 7) None None None None)) = [''agency'']"
      "populated (ids_Update (update_of None (Some 7) None None None None)) = [''agency'']"
      "populated (ids_Search (search_of None (Some 7) None None None None)) = [''agency'']"
    by (simp_all add: populated_def ids_Create_def ids_Update_def ids_Search_def create_of_def
          update_of_def search_of_def accountTypes_def)
  have many: "populated (ids_Create (create_of None None (Some 3) None None (Some 4))) = [''celebrity'', ''government'']"
      "populated (ids_Update (update_of None None (Some 3) None None (Some 4))) = [''celebrity'', ''government'']"
      "populated (ids_Search (search_of None None (Some 3) None None (Some 4))) = [''celebrity'', ''government'']"
    by (simp_all add: populated_def ids_Create_def ids_Update_def ids_Search_def create_of_def
          update_of_def search_of_def accountTypes_def)
  have none: "populated (ids_Create (create_of None None None None None None)) = []"
      "populated (ids_Update (update_of None None None None None None)) = []"
      "populated (ids_Search (search_of None None None None None None)) = []"
    by (simp_all add: populated_def ids_Create_def ids_Update_def ids_Search_def create_of_def
          update_of_def search_of_def accountTypes_def)
  show ?thesis
    using parse one many none
      GetAccountType_resolves [where 'w = "nat \<times> nat" and ci = "create_of None (Some 7) None None None None"
        and ui = "update_of None (Some 7) None None None None" and si = "search_of None (Some 7) None None None None"]
      GetAccountType_resolves [where 'w = "nat \<times> nat" and ci = "create_of None None (Some 3) None None (Some 4)"
        and ui = "update_of None None (Some 3) None None (Some 4)" and si = "search_of None None (Some 3) None None (Some 4)"]
      GetAccountType_resolves [where 'w = "nat \<times> nat" and ci = "create_of None None None None None None"
        and ui = "update_of None None None None None None" and si = "search_of None None None None None None"]
    by simp
qed

section \<open>Properties: the fan-out of \<^verbatim>\<open>DeleteAccount\<close> and \<^verbatim>\<open>ListAccounts\<close>\<close>

lemma serve_length: "serve P reqs w = (outs, w') \<Longrightarrow> length outs = length reqs"
  by (induction reqs arbitrary: w outs) (auto split: prod.splits)

text \<open>
  One turn of the loop of \<^verbatim>\<open>DeleteAccount\<close>, when the base URL parses and the request can
  be built: the request goes out, and the outcome decides between success, failure and
  the next kind.
\<close>

lemma DeleteAccount_step:
  assumes "url_Parse L (BaseURL c) = Inr u"
    and "can_build L (delete_request L c accountID u t)"
    and "transport P (delete_request L c accountID u t) w = (out, w')"
  shows "DeleteAccount_loop L P c accountID (t # rest) \<lparr>world = w, sent = sn\<rparr> =
     (case out of
        Inl err \<Rightarrow> (Some err, \<lparr>world = w', sent = sn @ [delete_request L c accountID u t]\<rparr>)
      | Inr resp \<Rightarrow>
          if StatusCode resp = 200
          then (None, \<lparr>world = w', sent = sn @ [delete_request L c accountID u t]\<rparr>)
          else if StatusCode resp \<noteq> 404
          then (Some (Errorf ''unexpected response from server: %s'' [AStr (Status resp)]),
                \<lparr>world = w', sent = sn @ [delete_request L c accountID u t]\<rparr>)
          else DeleteAccount_loop L P c accountID rest
                 \<lparr>world = w', sent = sn @ [delete_request L c accountID u t]\<rparr>)"
  using assms
  by (simp add: can_build_def delete_request_def http_NewRequest_def HttpClient_Do_def
        Header_Set_def http_StatusOK_def http_StatusNotFound_def split: sum.splits)

lemma DeleteAccount_skips_404:
  assumes "url_Parse L (BaseURL c) = Inr u"
    and "\<forall>t\<in>set pre. can_build L (delete_request L c accountID u t)"
    and "serve P (map (delete_request L c accountID u) pre) w = (outs, w1)"
    and "list_all (has_status 404) outs"
  shows "DeleteAccount_loop L P c accountID (pre @ rest) \<lparr>world = w, sent = sn\<rparr> =
         DeleteAccount_loop L P c accountID rest
           \<lparr>world = w1, sent = sn @ map (delete_request L c accountID u) pre\<rparr>"
  using assms(2-)
proof (induction pre arbitrary: w sn outs)
  case Nil
  then show ?case by simp
next
  case (Cons t pre)
  obtain out w' where tr: "transport P (delete_request L c accountID u t) w = (out, w')"
    by (cases "transport P (delete_request L c accountID u t) w")
  obtain outs' w'' where sv: "serve P (map (delete_request L c accountID u) pre) w' = (outs', w'')"
    by (cases "serve P (map (delete_request L c accountID u) pre) w'")
  from Cons.prems(2) tr sv have eq: "outs = out # outs'" "w1 = w''" by auto
  with Cons.prems(3) have o404: "has_status 404 out" and rest404: "list_all (has_status 404) outs'"
    by auto
  from o404 obtain resp where r: "out = Inr resp" "StatusCode resp = 404"
    by (auto simp: has_status_def split: sum.splits)
  from Cons.prems(1) have cb: "can_build L (delete_request L c accountID u t)" by simp
  have "DeleteAccount_loop L P c accountID ((t # pre) @ rest) \<lparr>world = w, sent = sn\<rparr> =
        DeleteAccount_loop L P c accountID (pre @ rest)
          \<lparr>world = w', sent = sn @ [delete_request L c accountID u t]\<rparr>"
    using DeleteAccount_step [OF assms(1) cb tr, where rest = "pre @ rest" and sn = sn] r
    by (simp del: DeleteAccount_loop.simps)
  also have "\<dots> = DeleteAccount_loop L P c accountID rest
          \<lparr>world = w1, sent = (sn @ [delete_request L c accountID u t])
                                @ map (delete_request L c accountID u) pre\<rparr>"
    using Cons.IH [of w' outs'] Cons.prems(1) sv rest404 eq by simp
  finally show ?case by simp
qed

text \<open>The same for \<^verbatim>\<open>ListAccounts\<close>.\<close>

lemma ListAccounts_step:
  assumes "url_Parse L (BaseURL c) = Inr u"
    and "can_build L (list_request L c u t)"
    and "transport P (list_request L c u t) w = (out, w')"
  shows "ListAccounts_loop L P c (t # rest) accounts \<lparr>world = w, sent = sn\<rparr> =
     (case out of
        Inl err \<Rightarrow> (Inl err, \<lparr>world = w', sent = sn @ [list_request L c u t]\<rparr>)
      | Inr resp \<Rightarrow>
          if StatusCode resp \<noteq> 200
          then (Inl (Errorf ''bad response from server: %s'' [AStr (Status resp)]),
                \<lparr>world = w', sent = sn @ [list_request L c u t]\<rparr>)
          else (case BodyErr resp of
                  Some err \<Rightarrow> (Inl err, \<lparr>world = w', sent = sn @ [list_request L c u t]\<rparr>)
                | None \<Rightarrow>
                    (case Unmarshal_AccountList L (Body resp) of
                       Inl err \<Rightarrow> (Inl err, \<lparr>world = w', sent = sn @ [list_request L c u t]\<rparr>)
                     | Inr accountList \<Rightarrow>
                         ListAccounts_loop L P c rest (accounts @ accountList)
                           \<lparr>world = w', sent = sn @ [list_request L c u t]\<rparr>)))"
  using assms
  by (simp add: can_build_def list_request_def http_NewRequest_def HttpClient_Do_def
        Header_Set_def http_StatusOK_def io_ReadAll_def split: sum.splits option.splits)

lemma ListAccounts_collects:
  assumes "url_Parse L (BaseURL c) = Inr u"
    and "\<forall>t\<in>set pre. can_build L (list_request L c u t)"
    and "serve P (map (list_request L c u) pre) w = (outs, w1)"
    and "list_all2 (lists L) outs ls"
  shows "ListAccounts_loop L P c (pre @ rest) accounts \<lparr>world = w, sent = sn\<rparr> =
         ListAccounts_loop L P c rest (accounts @ concat ls)
           \<lparr>world = w1, sent = sn @ map (list_request L c u) pre\<rparr>"
  using assms(2-)
proof (induction pre arbitrary: w sn outs ls accounts)
  case Nil
  then show ?case by simp
next
  case (Cons t pre)
  obtain out w' where tr: "transport P (list_request L c u t) w = (out, w')"
    by (cases "transport P (list_request L c u t) w")
  obtain outs' w'' where sv: "serve P (map (list_request L c u) pre) w' = (outs', w'')"
    by (cases "serve P (map (list_request L c u) pre) w'")
  from Cons.prems(2) tr sv have eq: "outs = out # outs'" "w1 = w''" by auto
  with Cons.prems(3) obtain l ls' where ls: "ls = l # ls'" "lists L out l" "list_all2 (lists L) outs' ls'"
    by (auto simp: list_all2_Cons1)
  from ls(2) obtain resp where r: "out = Inr resp" "StatusCode resp = 200" "BodyErr resp = None"
      "Unmarshal_AccountList L (Body resp) = Inr l"
    by (auto simp: lists_def split: sum.splits)
  from Cons.prems(1) have cb: "can_build L (list_request L c u t)" by simp
  have "ListAccounts_loop L P c ((t # pre) @ rest) accounts \<lparr>world = w, sent = sn\<rparr> =
        ListAccounts_loop L P c (pre @ rest) (accounts @ l)
          \<lparr>world = w', sent = sn @ [list_request L c u t]\<rparr>"
    using ListAccounts_step [OF assms(1) cb tr, where rest = "pre @ rest" and sn = sn
        and accounts = accounts] r
    by (simp del: ListAccounts_loop.simps)
  also have "\<dots> = ListAccounts_loop L P c rest ((accounts @ l) @ concat ls')
          \<lparr>world = w1, sent = (sn @ [list_request L c u t]) @ map (list_request L c u) pre\<rparr>"
    using Cons.IH [of w' outs' ls'] Cons.prems(1) sv ls(3) eq by simp
  finally show ?case using ls(1) by simp
qed

text \<open>
  C2. \<^verbatim>\<open>DeleteAccount\<close> probes the kinds in the order user, agency, celebrity, business,
  enterprise, government. When the kinds before \<open>t\<close> answer 404 one after the other and
  \<open>t\<close> answers 200, it returns \<^verbatim>\<open>nil\<close> having sent exactly the requests for those kinds
  and for \<open>t\<close>, in order; when all six answer 404 it returns "account not found" after
  six requests. In particular, with user, agency and celebrity answering 404 and business
  answering 200 it succeeds after exactly 4 requests, those for user, agency, celebrity
  and business.
\<close>

theorem DeleteAccount_fan_out:
  assumes parse: "url_Parse L (BaseURL c) = Inr u"
    and build: "\<forall>t\<in>set accountTypes. can_build L (delete_request L c accountID u t)"
  shows
    "(\<forall>pre t post outs w1 resp w'.
        accountTypes = pre @ t # post \<and>
        serve P (map (delete_request L c accountID u) pre) w = (outs, w1) \<and>
        list_all (has_status 404) outs \<and>
        transport P (delete_request L c accountID u t) w1 = (Inr resp, w') \<and>
        StatusCode resp = 200 \<longrightarrow>
        DeleteAccount L P c accountID \<lparr>world = w, sent = sn\<rparr> =
          (None, \<lparr>world = w', sent = sn @ map (delete_request L c accountID u) (pre @ [t])\<rparr>)) \<and>
     (\<forall>outs w'.
        serve P (map (delete_request L c accountID u) accountTypes) w = (outs, w') \<and>
        list_all (has_status 404) outs \<longrightarrow>
        DeleteAccount L P c accountID \<lparr>world = w, sent = sn\<rparr> =
          (Some AccountNotFound,
           \<lparr>world = w', sent = sn @ map (delete_request L c accountID u) accountTypes\<rparr>)) \<and>
     (\<forall>outs w1 resp w'.
        serve P (map (delete_request L c accountID u) [''user'', ''agency'', ''celebrity'']) w
          = (outs, w1) \<and>
        list_all (has_status 404) outs \<and>
        transport P (delete_request L c accountID u ''business'') w1 = (Inr resp, w') \<and>
        StatusCode resp = 200 \<longrightarrow>
        (\<exists>s'. DeleteAccount L P c accountID \<lparr>world = w, sent = sn\<rparr> = (None, s') \<and>
              sent s' = sn @ map (delete_request L c accountID u)
                               [''user'', ''agency'', ''celebrity'', ''business''] \<and>
              length (sent s') = length sn + 4))"
proof -
  have first: "DeleteAccount L P c accountID \<lparr>world = w, sent = sn\<rparr> =
          (None, \<lparr>world = w', sent = sn @ map (delete_request L c accountID u) (pre @ [t])\<rparr>)"
    if "accountTypes = pre @ t # post"
      and "serve P (map (delete_request L c accountID u) pre) w = (outs, w1)"
      and "list_all (has_status 404) outs"
      and "transport P (delete_request L c accountID u t) w1 = (Inr resp, w')"
      and "StatusCode resp = 200"
    for pre t post outs w1 resp w'
  proof -
    from build [unfolded that(1)] have b1: "\<forall>t\<in>set pre. can_build L (delete_request L c accountID u t)"
      and b2: "can_build L (delete_request L c accountID u t)" by auto
    have "DeleteAccount L P c accountID \<lparr>world = w, sent = sn\<rparr> =
          DeleteAccount_loop L P c accountID (t # post)
            \<lparr>world = w1, sent = sn @ map (delete_request L c accountID u) pre\<rparr>"
      unfolding DeleteAccount_def that(1)
      by (rule DeleteAccount_skips_404 [OF parse b1 that(2) that(3)])
    also have "\<dots> = (None, \<lparr>world = w',
          sent = (sn @ map (delete_request L c accountID u) pre) @ [delete_request L c accountID u t]\<rparr>)"
      using DeleteAccount_step [OF parse b2 that(4), where rest = post] that(5)
      by (simp del: DeleteAccount_loop.simps)
    finally show ?thesis by simp
  qed
  have none: "DeleteAccount L P c accountID \<lparr>world = w, sent = sn\<rparr> =
          (Some AccountNotFound,
           \<lparr>world = w', sent = sn @ map (delete_request L c accountID u) accountTypes\<rparr>)"
    if "serve P (map (delete_request L c accountID u) accountTypes) w = (outs, w')"
      and "list_all (has_status 404) outs" for outs w'
    using DeleteAccount_skips_404 [OF parse build that, where rest = "[]" and sn = sn]
    by (simp add: DeleteAccount_def AccountNotFound_def)
  have business: "\<exists>s'. DeleteAccount L P c accountID \<lparr>world = w, sent = sn\<rparr> = (None, s') \<and>
              sent s' = sn @ map (delete_request L c accountID u)
                               [''user'', ''agency'', ''celebrity'', ''business''] \<and>
              length (sent s') = length sn + 4"
    if "serve P (map (delete_request L c accountID u) [''user'', ''agency'', ''celebrity'']) w
          = (outs, w1)"
      and "list_all (has_status 404) outs"
      and "transport P (delete_request L c accountID u ''business'') w1 = (Inr resp, w')"
      and "StatusCode resp = 200" for outs w1 resp w'
  proof -
    have split: "accountTypes = [''user'', ''agency'', ''celebrity''] @ ''business''
                   # [''enterprise'', ''government'']"
      by (simp add: accountTypes_def)
    from first [OF split that] show ?thesis by simp
  qed
  from first none business show ?thesis by blast
qed

theorem DeleteAccount_fan_out_witness:
  "url_Parse lib0 (BaseURL client0) = Inr url0 \<and>
   list_all (\<lambda>t. can_build lib0 (delete_request lib0 client0 9 url0 t)) accountTypes \<and>
   serve (scripted answers_business [])
     (map (delete_request lib0 client0 9 url0) [''user'', ''agency'', ''celebrity'']) (0, 0)
     = ([answer 404 [], answer 404 [], answer 404 []], (3, 0)) \<and>
   list_all (has_status 404) [answer 404 [], answer 404 [], answer 404 []] \<and>
   transport (scripted answers_business []) (delete_request lib0 client0 9 url0 ''business'') (3, 0)
     = (answer 200 [], (4, 0)) \<and>
   DeleteAccount lib0 (scripted answers_business []) client0 9 net0 =
     (None, \<lparr>world = (4, 0),
             sent = map (delete_request lib0 client0 9 url0)
                      [''user'', ''agency'', ''celebrity'', ''business'']\<rparr>) \<and>
   length (sent (snd (DeleteAccount lib0 (scripted answers_business []) client0 9 net0))) = 4 \<and>
   serve (scripted answers_nowhere []) (map (delete_request lib0 client0 9 url0) accountTypes) (0, 0)
     = (answers_nowhere, (6, 0)) \<and>
   list_all (has_status 404) answers_nowhere \<and>
   DeleteAccount lib0 (scripted answers_nowhere []) client0 9 net0 =
     (Some AccountNotFound,
      \<lparr>world = (6, 0), sent = map (delete_request lib0 client0 9 url0) accountTypes\<rparr>)"
proof -
  have parse: "url_Parse lib0 (BaseURL client0) = Inr url0"
    by (simp add: lib0_def client0_def url0_def)
  have build: "\<forall>t\<in>set accountTypes. can_build lib0 (delete_request lib0 client0 9 url0 t)"
    by (simp add: can_build_def lib0_def)
  have pre: "serve (scripted answers_business [])
     (map (delete_request lib0 client0 9 url0) [''user'', ''agency'', ''celebrity'']) (0, 0)
     = ([answer 404 [], answer 404 [], answer 404 []], (3, 0))"
    by (simp add: scripted_def answers_business_def numeral_3_eq_3)
  have p404: "list_all (has_status 404) [answer 404 [], answer 404 [], answer 404 []]"
    by (simp add: has_status_def answer_def)
  have biz: "transport (scripted answers_business []) (delete_request lib0 client0 9 url0 ''business'') (3, 0)
     = (Inr \<lparr>StatusCode = 200, Status = ''status'', Body = [], BodyErr = None\<rparr>, (4, 0))"
    by (simp add: scripted_def answers_business_def answer_def)
  have all: "serve (scripted answers_nowhere []) (map (delete_request lib0 client0 9 url0) accountTypes) (0, 0)
     = (answers_nowhere, (6, 0))"
    by (simp add: scripted_def answers_nowhere_def accountTypes_def eval_nat_numeral)
  have a404: "list_all (has_status 404) answers_nowhere"
    by (simp add: has_status_def answer_def answers_nowhere_def)
  have split: "accountTypes = [''user'', ''agency'', ''celebrity''] @ ''business''
                   # [''enterprise'', ''government'']"
    by (simp add: accountTypes_def)
  note thm1 = DeleteAccount_fan_out [OF parse build, where P = "scripted answers_business []"
      and w = "(0, 0)" and sn = "[]"]
  note thm2 = DeleteAccount_fan_out [OF parse build, where P = "scripted answers_nowhere []"
      and w = "(0, 0)" and sn = "[]"]
  from thm1 split pre p404 biz
  have r1: "DeleteAccount lib0 (scripted answers_business []) client0 9 \<lparr>world = (0, 0), sent = []\<rparr> =
     (None, \<lparr>world = (4, 0),
             sent = [] @ map (delete_request lib0 client0 9 url0)
                      ([''user'', ''agency'', ''celebrity''] @ [''business''])\<rparr>)"
    by (metis (no_types, lifting) response.select_convs(1))
  from thm1 pre p404 biz
  have r3: "\<exists>s'. DeleteAccount lib0 (scripted answers_business []) client0 9
                  \<lparr>world = (0, 0), sent = []\<rparr> = (None, s') \<and>
       sent s' = [] @ map (delete_request lib0 client0 9 url0)
                        [''user'', ''agency'', ''celebrity'', ''business''] \<and>
       length (sent s') = length ([] :: request list) + 4"
    by (metis (no_types, lifting) response.select_convs(1))
  from thm2 all a404
  have r2: "DeleteAccount lib0 (scripted answers_nowhere []) client0 9 \<lparr>world = (0, 0), sent = []\<rparr> =
     (Some AccountNotFound,
      \<lparr>world = (6, 0), sent = [] @ map (delete_request lib0 client0 9 url0) accountTypes\<rparr>)"
    by blast
  show ?thesis
    using parse build pre p404 biz all a404 r1 r2 r3
    by (simp add: net0_def answer_def list_all_iff)
qed

text \<open>
  C9. When the kinds before \<open>t\<close> answer 404 and \<open>t\<close> answers with a status that is neither
  200 nor 404, \<^verbatim>\<open>DeleteAccount\<close> returns the error "unexpected response from server" with
  the status line at once: the request for \<open>t\<close> is the last one sent, and the error is not
  "account not found".
\<close>

theorem DeleteAccount_unexpected_status:
  assumes parse: "url_Parse L (BaseURL c) = Inr u"
    and build: "\<forall>t\<in>set accountTypes. can_build L (delete_request L c accountID u t)"
    and split: "accountTypes = pre @ t # post"
    and before: "serve P (map (delete_request L c accountID u) pre) w = (outs, w1)"
    and "list_all (has_status 404) outs"
    and answer: "transport P (delete_request L c accountID u t) w1 = (Inr resp, w')"
    and status: "StatusCode resp \<noteq> 200" "StatusCode resp \<noteq> 404"
  shows "DeleteAccount L P c accountID \<lparr>world = w, sent = sn\<rparr> =
           (Some (Errorf ''unexpected response from server: %s'' [AStr (Status resp)]),
            \<lparr>world = w', sent = sn @ map (delete_request L c accountID u) (pre @ [t])\<rparr>) \<and>
         Errorf ''unexpected response from server: %s'' [AStr (Status resp)] \<noteq> AccountNotFound"
proof -
  from build [unfolded split] have b1: "\<forall>t\<in>set pre. can_build L (delete_request L c accountID u t)"
    and b2: "can_build L (delete_request L c accountID u t)" by auto
  have "DeleteAccount L P c accountID \<lparr>world = w, sent = sn\<rparr> =
        DeleteAccount_loop L P c accountID (t # post)
          \<lparr>world = w1, sent = sn @ map (delete_request L c accountID u) pre\<rparr>"
    unfolding DeleteAccount_def split
    by (rule DeleteAccount_skips_404 [OF parse b1 before assms(5)])
  also have "\<dots> = (Some (Errorf ''unexpected response from server: %s'' [AStr (Status resp)]),
      \<lparr>world = w',
       sent = (sn @ map (delete_request L c accountID u) pre) @ [delete_request L c accountID u t]\<rparr>)"
    using DeleteAccount_step [OF parse b2 answer, where rest = post] status
    by (simp del: DeleteAccount_loop.simps)
  finally show ?thesis by (simp add: AccountNotFound_def)
qed

theorem DeleteAccount_unexpected_status_witness:
  "url_Parse lib0 (BaseURL client0) = Inr url0 \<and>
   list_all (\<lambda>t. can_build lib0 (delete_request lib0 client0 9 url0 t)) accountTypes \<and>
   accountTypes = [''user''] @ ''agency'' # [''celebrity'', ''business'', ''enterprise'', ''government''] \<and>
   serve (scripted answers_broken []) (map (delete_request lib0 client0 9 url0) [''user'']) (0, 0)
     = ([answer 404 []], (1, 0)) \<and>
   list_all (has_status 404) [answer 404 []] \<and>
   transport (scripted answers_broken []) (delete_request lib0 client0 9 url0 ''agency'') (1, 0)
     = (answer 500 ''boom'', (2, 0)) \<and>
   DeleteAccount lib0 (scripted answers_broken []) client0 9 net0 =
     (Some (Errorf ''unexpected response from server: %s'' [AStr ''status'']),
      \<lparr>world = (2, 0),
       sent = map (delete_request lib0 client0 9 url0) [''user'', ''agency'']\<rparr>)"
proof -
  have parse: "url_Parse lib0 (BaseURL client0) = Inr url0"
    by (simp add: lib0_def client0_def url0_def)
  have build: "\<forall>t\<in>set accountTypes. can_build lib0 (delete_request lib0 client0 9 url0 t)"
    by (simp add: can_build_def lib0_def)
  have split: "accountTypes = [''user''] @ ''agency''
                 # [''celebrity'', ''business'', ''enterprise'', ''government'']"
    by (simp add: accountTypes_def)
  have pre: "serve (scripted answers_broken []) (map (delete_request lib0 client0 9 url0) [''user''])
               (0, 0) = ([answer 404 []], (1, 0))"
    by (simp add: scripted_def answers_broken_def)
  have p404: "list_all (has_status 404) [answer 404 []]"
    by (simp add: has_status_def answer_def)
  have bad: "transport (scripted answers_broken []) (delete_request lib0 client0 9 url0 ''agency'')
               (1, 0)
             = (Inr \<lparr>StatusCode = 500, Status = ''status'', Body = ''boom'', BodyErr = None\<rparr>, (2, 0))"
    by (simp add: scripted_def answers_broken_def answer_def)
  show ?thesis
    using parse build split pre p404 bad
      DeleteAccount_unexpected_status [OF parse build split pre p404 bad, where sn = "[]"]
    by (simp add: net0_def answer_def list_all_iff)
qed

text \<open>
  C3. When the six list requests, sent in the order of the kinds, are all answered with
  status 200 and bodies that decode to the lists \<open>ls\<close>, \<^verbatim>\<open>ListAccounts\<close> returns their
  concatenation in that order; its length is the sum of the six lengths.
\<close>

theorem ListAccounts_concatenates:
  assumes parse: "url_Parse L (BaseURL c) = Inr u"
    and build: "\<forall>t\<in>set accountTypes. can_build L (list_request L c u t)"
    and served: "serve P (map (list_request L c u) accountTypes) w = (outs, w')"
    and ok: "list_all2 (lists L) outs ls"
  shows "ListAccounts L P c \<lparr>world = w, sent = sn\<rparr> =
           (Inr (concat ls), \<lparr>world = w', sent = sn @ map (list_request L c u) accountTypes\<rparr>) \<and>
         length ls = 6 \<and>
         length (concat ls) = sum_list (map length ls)"
proof -
  have "ListAccounts L P c \<lparr>world = w, sent = sn\<rparr> =
        ListAccounts_loop L P c [] ([] @ concat ls)
          \<lparr>world = w', sent = sn @ map (list_request L c u) accountTypes\<rparr>"
    using ListAccounts_collects [OF parse build served ok, where rest = "[]" and accounts = "[]"
        and sn = sn]
    by (simp add: ListAccounts_def)
  moreover have "length ls = 6"
    using serve_length [OF served] list_all2_lengthD [OF ok] by (simp add: accountTypes_def)
  ultimately show ?thesis by (simp add: length_concat)
qed

theorem ListAccounts_concatenates_witness:
  "url_Parse lib0 (BaseURL client0) = Inr url0 \<and>
   list_all (\<lambda>t. can_build lib0 (list_request lib0 client0 url0 t)) accountTypes \<and>
   serve (scripted answers_lists []) (map (list_request lib0 client0 url0) accountTypes) (0, 0)
     = (answers_lists, (6, 0)) \<and>
   list_all2 (lists lib0) answers_lists
     [[acct 1, acct 1], [acct 1], [], [acct 1], [acct 1, acct 1], [acct 1]] \<and>
   ListAccounts lib0 (scripted answers_lists []) client0 net0 =
     (Inr [acct 1, acct 1, acct 1, acct 1, acct 1, acct 1, acct 1],
      \<lparr>world = (6, 0), sent = map (list_request lib0 client0 url0) accountTypes\<rparr>) \<and>
   length [acct 1, acct 1, acct 1, acct 1, acct 1, acct 1, acct 1] = 2 + 1 + 0 + 1 + 2 + 1"
proof -
  have parse: "url_Parse lib0 (BaseURL client0) = Inr url0"
    by (simp add: lib0_def client0_def url0_def)
  have build: "\<forall>t\<in>set accountTypes. can_build lib0 (list_request lib0 client0 url0 t)"
    by (simp add: can_build_def lib0_def)
  have served: "serve (scripted answers_lists []) (map (list_request lib0 client0 url0) accountTypes)
                  (0, 0) = (answers_lists, (6, 0))"
    by (simp add: scripted_def answers_lists_def accountTypes_def eval_nat_numeral)
  have ok: "list_all2 (lists lib0) answers_lists
              [[acct 1, acct 1], [acct 1], [], [acct 1], [acct 1, acct 1], [acct 1]]"
    by (simp add: lists_def lib0_def answers_lists_def answer_def)
  show ?thesis
    using parse build served ok
      ListAccounts_concatenates [OF parse build served ok, where sn = "[]"]
    by (simp add: net0_def list_all_iff)
qed

text \<open>
  C6. When the list requests for the kinds before \<open>t\<close> succeed and the one for \<open>t\<close> fails
  (a transport error, or a status other than 200), \<^verbatim>\<open>ListAccounts\<close> returns that error and
  no accounts, and sends nothing after the request for \<open>t\<close>.
\<close>

theorem ListAccounts_aborts:
  assumes parse: "url_Parse L (BaseURL c) = Inr u"
    and build: "\<forall>t\<in>set accountTypes. can_build L (list_request L c u t)"
    and split: "accountTypes = pre @ t # post"
    and before: "serve P (map (list_request L c u) pre) w = (outs, w1)"
    and ok: "list_all2 (lists L) outs ls"
    and answer: "transport P (list_request L c u t) w1 = (out, w')"
    and fails: "\<not> has_status 200 out"
  shows "ListAccounts L P c \<lparr>world = w, sent = sn\<rparr> =
           (Inl (case out of
                   Inl err \<Rightarrow> err
                 | Inr resp \<Rightarrow> Errorf ''bad response from server: %s'' [AStr (Status resp)]),
            \<lparr>world = w', sent = sn @ map (list_request L c u) (pre @ [t])\<rparr>)"
proof -
  from build [unfolded split] have b1: "\<forall>t\<in>set pre. can_build L (list_request L c u t)"
    and b2: "can_build L (list_request L c u t)" by auto
  have "ListAccounts L P c \<lparr>world = w, sent = sn\<rparr> =
        ListAccounts_loop L P c (t # post) ([] @ concat ls)
          \<lparr>world = w1, sent = sn @ map (list_request L c u) pre\<rparr>"
    unfolding ListAccounts_def split
    by (rule ListAccounts_collects [OF parse b1 before ok])
  also have "\<dots> = (Inl (case out of
                   Inl err \<Rightarrow> err
                 | Inr resp \<Rightarrow> Errorf ''bad response from server: %s'' [AStr (Status resp)]),
      \<lparr>world = w', sent = (sn @ map (list_request L c u) pre) @ [list_request L c u t]\<rparr>)"
  proof (cases out)
    case (Inl err)
    then show ?thesis
      using ListAccounts_step [OF parse b2 answer, where rest = post]
      by (simp del: ListAccounts_loop.simps)
  next
    case (Inr resp)
    with fails have "StatusCode resp \<noteq> 200" by (simp add: has_status_def)
    with Inr show ?thesis
      using ListAccounts_step [OF parse b2 answer, where rest = post]
      by (simp del: ListAccounts_loop.simps)
  qed
  finally show ?thesis by simp
qed

theorem ListAccounts_aborts_witness:
  "url_Parse lib0 (BaseURL client0) = Inr url0 \<and>
   list_all (\<lambda>t. can_build lib0 (list_request lib0 client0 url0 t)) accountTypes \<and>
   accountTypes = [''user''] @ ''agency'' # [''celebrity'', ''business'', ''enterprise'', ''government''] \<and>
   serve (scripted answers_list_500 []) (map (list_request lib0 client0 url0) [''user'']) (0, 0)
     = ([answer 200 ''ab''], (1, 0)) \<and>
   list_all2 (lists lib0) [answer 200 ''ab''] [[acct 1, acct 1]] \<and>
   transport (scripted answers_list_500 []) (list_request lib0 client0 url0 ''agency'') (1, 0)
     = (answer 500 ''boom'', (2, 0)) \<and>
   \<not> has_status 200 (answer 500 ''boom'') \<and>
   ListAccounts lib0 (scripted answers_list_500 []) client0 net0 =
     (Inl (Errorf ''bad response from server: %s'' [AStr ''status'']),
      \<lparr>world = (2, 0), sent = map (list_request lib0 client0 url0) [''user'', ''agency'']\<rparr>) \<and>
   serve (scripted answers_list_timeout []) (map (list_request lib0 client0 url0) [''user'']) (0, 0)
     = ([answer 200 ''ab''], (1, 0)) \<and>
   transport (scripted answers_list_timeout []) (list_request lib0 client0 url0 ''agency'') (1, 0)
     = (Inl (ErrorsNew ''timeout''), (2, 0)) \<and>
   \<not> has_status 200 (Inl (ErrorsNew ''timeout'')) \<and>
   ListAccounts lib0 (scripted answers_list_timeout []) client0 net0 =
     (Inl (ErrorsNew ''timeout''),
      \<lparr>world = (2, 0), sent = map (list_request lib0 client0 url0) [''user'', ''agency'']\<rparr>)"
proof -
  have parse: "url_Parse lib0 (BaseURL client0) = Inr url0"
    by (simp add: lib0_def client0_def url0_def)
  have build: "\<forall>t\<in>set accountTypes. can_build lib0 (list_request lib0 client0 url0 t)"
    by (simp add: can_build_def lib0_def)
  have split: "accountTypes = [''user''] @ ''agency''
                 # [''celebrity'', ''business'', ''enterprise'', ''government'']"
    by (simp add: accountTypes_def)
  have pre1: "serve (scripted answers_list_500 []) (map (list_request lib0 client0 url0) [''user''])
                (0, 0) = ([answer 200 ''ab''], (1, 0))"
    by (simp add: scripted_def answers_list_500_def)
  have pre2: "serve (scripted answers_list_timeout []) (map (list_request lib0 client0 url0) [''user''])
                (0, 0) = ([answer 200 ''ab''], (1, 0))"
    by (simp add: scripted_def answers_list_timeout_def)
  have ok: "list_all2 (lists lib0) [answer 200 ''ab''] [[acct 1, acct 1]]"
    by (simp add: lists_def lib0_def answer_def)
  have bad1: "transport (scripted answers_list_500 []) (list_request lib0 client0 url0 ''agency'') (1, 0)
              = (answer 500 ''boom'', (2, 0))"
    by (simp add: scripted_def answers_list_500_def)
  have bad2: "transport (scripted answers_list_timeout []) (list_request lib0 client0 url0 ''agency'')
                (1, 0) = (Inl (ErrorsNew ''timeout''), (2, 0))"
    by (simp add: scripted_def answers_list_timeout_def)
  have f1: "\<not> has_status 200 (answer 500 ''boom'')"
    by (simp add: has_status_def answer_def)
  have f2: "\<not> has_status 200 (Inl (ErrorsNew ''timeout''))"
    by (simp add: has_status_def)
  show ?thesis
    using parse build split pre1 pre2 ok bad1 bad2 f1 f2
      ListAccounts_aborts [OF parse build split pre1 ok bad1 f1, where sn = "[]"]
      ListAccounts_aborts [OF parse build split pre2 ok bad2 f2, where sn = "[]"]
    by (simp add: net0_def answer_def list_all_iff)
qed

section \<open>Properties: what is serialized\<close>

text \<open>
  C8. The document written for a \<^verbatim>\<open>ServiceAccount\<close> does not depend on its secret: two
  service accounts that agree on every field but \<^verbatim>\<open>Secret\<close> are marshalled to the same
  result, and \<^verbatim>\<open>UpdateServiceAccount\<close>, the one place where the client marshals a
  \<^verbatim>\<open>ServiceAccount\<close>, behaves the same on both.
\<close>

theorem ServiceAccount_secret_not_serialized:
  assumes "sa_ID a = sa_ID b" and "sa_ServiceName a = sa_ServiceName b"
    and "sa_Roles a = sa_Roles b" and "sa_CreatedAt a = sa_CreatedAt b"
    and "sa_ExpiresAt a = sa_ExpiresAt b"
  shows "json_Marshal L (fields_ServiceAccount a) = json_Marshal L (fields_ServiceAccount b) \<and>
         UpdateServiceAccount L P c (Some a) s = UpdateServiceAccount L P c (Some b) s"
proof -
  have m: "json_Marshal L (fields_ServiceAccount a) = json_Marshal L (fields_ServiceAccount b)"
    by (simp add: fields_ServiceAccount_def json_Marshal_def assms)
  have "UpdateServiceAccount L P c (Some a) s = UpdateServiceAccount L P c (Some b) s"
    unfolding UpdateServiceAccount_def by (simp only: option.case assms m)
  with m show ?thesis by simp
qed

theorem ServiceAccount_secret_not_serialized_witness:
  "sa_ID service0 = sa_ID service1 \<and> sa_ServiceName service0 = sa_ServiceName service1 \<and>
   sa_Roles service0 = sa_Roles service1 \<and> sa_CreatedAt service0 = sa_CreatedAt service1 \<and>
   sa_ExpiresAt service0 = sa_ExpiresAt service1 \<and> sa_Secret service0 \<noteq> sa_Secret service1 \<and>
   json_Marshal lib0 (fields_ServiceAccount service0) =
     Inr (JObject [(''id'', JString ''id''), (''service_name'', JString ''billing''),
                   (''roles'', JArray [JString ''admin'']), (''created_at'', JString ''instant'')]) \<and>
   json_Marshal lib0 (fields_ServiceAccount service1) = json_Marshal lib0 (fields_ServiceAccount service0)"
proof -
  have eqs: "sa_ID service0 = sa_ID service1" "sa_ServiceName service0 = sa_ServiceName service1"
    "sa_Roles service0 = sa_Roles service1" "sa_CreatedAt service0 = sa_CreatedAt service1"
    "sa_ExpiresAt service0 = sa_ExpiresAt service1"
    by (simp_all add: service0_def service1_def)
  have doc: "json_Marshal lib0 (fields_ServiceAccount service0) =
     Inr (JObject [(''id'', JString ''id''), (''service_name'', JString ''billing''),
                   (''roles'', JArray [JString ''admin'']), (''created_at'', JString ''instant'')])"
    by (simp add: json_Marshal_def fields_ServiceAccount_def service0_def lib0_def)
  have diff: "sa_Secret service0 \<noteq> sa_Secret service1"
    by (simp add: service0_def service1_def)
  show ?thesis
    using eqs doc diff
      ServiceAccount_secret_not_serialized [OF eqs, where L = lib0 and P = "scripted [] []"
        and c = client0 and s = net0]
    by simp
qed

text \<open>
  The documents written for a membership update and for an account update. The two UUID
  members of the membership update are always written: \<^verbatim>\<open>omitempty\<close> never omits an
  array. The account update always writes \<^verbatim>\<open>user_id\<close> and writes the other five
  identifiers when they are non-nil.
\<close>

lemma marshal_event:
  "json_Marshal L (fields_UpdateAccountMembershipEvent e) =
     Inr (JObject
       ((if ev_AccountType e = [] then [] else [(''account_type'', JString (ev_AccountType e))])
        @ [(''account_id'', JString (uuid_String L (ev_AccountID e))),
           (''user_id'', JString (uuid_String L (ev_UserID e)))]
        @ (if ev_Role e = [] then [] else [(''role'', JString (ev_Role e))])))"
  by (simp add: json_Marshal_def fields_UpdateAccountMembershipEvent_def)

lemma marshal_update_input:
  "json_Marshal L (fields_UpdateAccountInput i) =
     Inr (JObject
       ((''user_id'', case uai_UserID i of None \<Rightarrow> JNull | Some x \<Rightarrow> JString (uuid_String L x))
        # (case uai_AgencyID i of None \<Rightarrow> [] | Some x \<Rightarrow> [(''agencyId'', JString (uuid_String L x))])
        @ (case uai_CelebrityID i of None \<Rightarrow> []
           | Some x \<Rightarrow> [(''celebrityId'', JString (uuid_String L x))])
        @ (case uai_BusinessID i of None \<Rightarrow> []
           | Some x \<Rightarrow> [(''businessId'', JString (uuid_String L x))])
        @ (case uai_EnterpriseID i of None \<Rightarrow> []
           | Some x \<Rightarrow> [(''enterpriseId'', JString (uuid_String L x))])
        @ (case uai_GovernmentID i of None \<Rightarrow> []
           | Some x \<Rightarrow> [(''governmentId'', JString (uuid_String L x))])))"
  by (simp add: json_Marshal_def fields_UpdateAccountInput_def split: option.splits)

lemma UpdateAccountMembership_sends:
  assumes "json_Marshal L (fields_UpdateAccountMembershipEvent e) = Inr doc"
    and "can_build L (patch_request L c mid doc)"
  shows "sent (snd (UpdateAccountMembership L P c mid e s)) = sent s @ [patch_request L c mid doc]"
  using assms
  by (auto simp: UpdateAccountMembership_def can_build_def patch_request_def http_NewRequest_def
        HttpClient_Do_def Header_Set_def Let_def split: prod.splits sum.splits)

lemma UpdateAccount_sends:
  assumes "json_Marshal L (fields_UpdateAccountInput i) = Inr doc"
    and "url_Parse L (BaseURL c) = Inr u"
    and "GetAccountType_Update i \<noteq> []"
    and "can_build L (put_request L c aid u (GetAccountType_Update i) doc)"
  shows "sent (snd (UpdateAccount L P c aid i s)) =
         sent s @ [put_request L c aid u (GetAccountType_Update i) doc]"
  using assms
  by (auto simp: UpdateAccount_def can_build_def put_request_def http_NewRequest_def
        HttpClient_Do_def Header_Set_def io_ReadAll_def Let_def
        split: prod.splits sum.splits option.splits)

text \<open>
  C5, as stated, fails. A membership update that provides the role only is sent with the
  members \<^verbatim>\<open>account_id\<close> and \<^verbatim>\<open>user_id\<close> as well, and an account update that provides
  the agency identifier only is sent with \<^verbatim>\<open>user_id\<close> and \<^verbatim>\<open>agencyId\<close> and none of the
  other four kind identifiers.
\<close>

theorem partial_patch_counterexample:
  "json_Marshal lib0 (fields_UpdateAccountMembershipEvent role_only) =
     Inr (JObject [(''account_id'', JString ''00000000-0000-0000-0000-000000000000''), (''user_id'', JString ''00000000-0000-0000-0000-000000000000''),
                   (''role'', JString ''admin'')]) \<and>
   sent (snd (UpdateAccountMembership lib0 (scripted answers_ok []) client0 5 role_only net0)) =
     [patch_request lib0 client0 5
        (JObject [(''account_id'', JString ''00000000-0000-0000-0000-000000000000''), (''user_id'', JString ''00000000-0000-0000-0000-000000000000''),
                  (''role'', JString ''admin'')])] \<and>
   json_Marshal lib0 (fields_UpdateAccountInput agency_only) =
     Inr (JObject [(''user_id'', JNull), (''agencyId'', JString ''id'')]) \<and>
   sent (snd (UpdateAccount lib0 (scripted answers_ok []) client0 5 agency_only net0)) =
     [put_request lib0 client0 5 url0 ''agency''
        (JObject [(''user_id'', JNull), (''agencyId'', JString ''id'')])]"
proof -
  have d1: "json_Marshal lib0 (fields_UpdateAccountMembershipEvent role_only) =
     Inr (JObject [(''account_id'', JString ''00000000-0000-0000-0000-000000000000''), (''user_id'', JString ''00000000-0000-0000-0000-000000000000''),
                   (''role'', JString ''admin'')])"
    by (simp add: marshal_event role_only_def uuid_Nil_def lib0_def)
  have d2: "json_Marshal lib0 (fields_UpdateAccountInput agency_only) =
     Inr (JObject [(''user_id'', JNull), (''agencyId'', JString ''id'')])"
    by (simp add: marshal_update_input agency_only_def update_of_def lib0_def)
  have t: "GetAccountType_Update agency_only = ''agency''"
    by (simp add: GetAccountType_Update_def agency_only_def update_of_def)
  have parse: "url_Parse lib0 (BaseURL client0) = Inr url0"
    by (simp add: lib0_def client0_def url0_def)
  have s1: "sent (snd (UpdateAccountMembership lib0 (scripted answers_ok []) client0 5 role_only net0))
      = sent net0 @ [patch_request lib0 client0 5
        (JObject [(''account_id'', JString ''00000000-0000-0000-0000-000000000000''), (''user_id'', JString ''00000000-0000-0000-0000-000000000000''),
                  (''role'', JString ''admin'')])]"
    by (rule UpdateAccountMembership_sends [OF d1]) (simp add: can_build_def lib0_def)
  have s2: "sent (snd (UpdateAccount lib0 (scripted answers_ok []) client0 5 agency_only net0))
      = sent net0 @ [put_request lib0 client0 5 url0 (GetAccountType_Update agency_only)
        (JObject [(''user_id'', JNull), (''agencyId'', JString ''id'')])]"
    by (rule UpdateAccount_sends [OF d2 parse]) (simp_all add: t can_build_def lib0_def)
  from d1 d2 s1 s2 show ?thesis by (simp add: t net0_def)
qed

text \<open>
  C5, amended. \<^verbatim>\<open>UpdateAccountMembership\<close> sends one PATCH request whose body has the
  member \<^verbatim>\<open>account_type\<close> exactly when the account type of the event is non-empty and
  the member \<^verbatim>\<open>role\<close> exactly when its role is non-empty. \<^verbatim>\<open>UpdateAccount\<close> sends one PUT
  request whose body always has the member \<^verbatim>\<open>user_id\<close> and has each of \<^verbatim>\<open>agencyId\<close>,
  \<^verbatim>\<open>celebrityId\<close>, \<^verbatim>\<open>businessId\<close>, \<^verbatim>\<open>enterpriseId\<close>, \<^verbatim>\<open>governmentId\<close> exactly when that
  identifier is non-nil.
\<close>

theorem partial_patch_and_update:
  "(\<exists>ms. json_Marshal L (fields_UpdateAccountMembershipEvent e) = Inr (JObject ms) \<and>
         (''account_type'' \<in> fst ` set ms \<longleftrightarrow> ev_AccountType e \<noteq> []) \<and>
         (''role'' \<in> fst ` set ms \<longleftrightarrow> ev_Role e \<noteq> []) \<and>
         (can_build L (patch_request L c mid (JObject ms)) \<longrightarrow>
            sent (snd (UpdateAccountMembership L P c mid e s)) =
              sent s @ [patch_request L c mid (JObject ms)])) \<and>
   (\<exists>ms. json_Marshal L (fields_UpdateAccountInput i) = Inr (JObject ms) \<and>
         ''user_id'' \<in> fst ` set ms \<and>
         (''agencyId'' \<in> fst ` set ms \<longleftrightarrow> uai_AgencyID i \<noteq> None) \<and>
         (''celebrityId'' \<in> fst ` set ms \<longleftrightarrow> uai_CelebrityID i \<noteq> None) \<and>
         (''businessId'' \<in> fst ` set ms \<longleftrightarrow> uai_BusinessID i \<noteq> None) \<and>
         (''enterpriseId'' \<in> fst ` set ms \<longleftrightarrow> uai_EnterpriseID i \<noteq> None) \<and>
         (''governmentId'' \<in> fst ` set ms \<longleftrightarrow> uai_GovernmentID i \<noteq> None) \<and>
         (\<forall>u. url_Parse L (BaseURL c) = Inr u \<and> GetAccountType_Update i \<noteq> [] \<and>
              can_build L (put_request L c aid u (GetAccountType_Update i) (JObject ms)) \<longrightarrow>
              sent (snd (UpdateAccount L P c aid i s)) =
                sent s @ [put_request L c aid u (GetAccountType_Update i) (JObject ms)]))"
proof -
  define es where "es =
       (if ev_AccountType e = [] then [] else [(''account_type'', JString (ev_AccountType e))])
        @ [(''account_id'', JString (uuid_String L (ev_AccountID e))),
           (''user_id'', JString (uuid_String L (ev_UserID e)))]
        @ (if ev_Role e = [] then [] else [(''role'', JString (ev_Role e))])"
  have em: "json_Marshal L (fields_UpdateAccountMembershipEvent e) = Inr (JObject es)"
    unfolding es_def by (rule marshal_event)
  have ek: "(''account_type'' \<in> fst ` set es \<longleftrightarrow> ev_AccountType e \<noteq> [])"
      "(''role'' \<in> fst ` set es \<longleftrightarrow> ev_Role e \<noteq> [])"
    by (simp_all add: es_def)
  have esent: "can_build L (patch_request L c mid (JObject es)) \<longrightarrow>
      sent (snd (UpdateAccountMembership L P c mid e s)) =
        sent s @ [patch_request L c mid (JObject es)]"
    using UpdateAccountMembership_sends [OF em] by blast
  define us where "us =
       (''user_id'', case uai_UserID i of None \<Rightarrow> JNull | Some x \<Rightarrow> JString (uuid_String L x))
        # (case uai_AgencyID i of None \<Rightarrow> [] | Some x \<Rightarrow> [(''agencyId'', JString (uuid_String L x))])
        @ (case uai_CelebrityID i of None \<Rightarrow> []
           | Some x \<Rightarrow> [(''celebrityId'', JString (uuid_String L x))])
        @ (case uai_BusinessID i of None \<Rightarrow> []
           | Some x \<Rightarrow> [(''businessId'', JString (uuid_String L x))])
        @ (case uai_EnterpriseID i of None \<Rightarrow> []
           | Some x \<Rightarrow> [(''enterpriseId'', JString (uuid_String L x))])
        @ (case uai_GovernmentID i of None \<Rightarrow> []
           | Some x \<Rightarrow> [(''governmentId'', JString (uuid_String L x))])"
  have um: "json_Marshal L (fields_UpdateAccountInput i) = Inr (JObject us)"
    unfolding us_def by (rule marshal_update_input)
  have uk: "''user_id'' \<in> fst ` set us"
      "(''agencyId'' \<in> fst ` set us \<longleftrightarrow> uai_AgencyID i \<noteq> None)"
      "(''celebrityId'' \<in> fst ` set us \<longleftrightarrow> uai_CelebrityID i \<noteq> None)"
      "(''businessId'' \<in> fst ` set us \<longleftrightarrow> uai_BusinessID i \<noteq> None)"
      "(''enterpriseId'' \<in> fst ` set us \<longleftrightarrow> uai_EnterpriseID i \<noteq> None)"
      "(''governmentId'' \<in> fst ` set us \<longleftrightarrow> uai_GovernmentID i \<noteq> None)"
    by (auto simp: us_def) (metis+)
  have usent: "\<forall>u. url_Parse L (BaseURL c) = Inr u \<and> GetAccountType_Update i \<noteq> [] \<and>
              can_build L (put_request L c aid u (GetAccountType_Update i) (JObject us)) \<longrightarrow>
              sent (snd (UpdateAccount L P c aid i s)) =
                sent s @ [put_request L c aid u (GetAccountType_Update i) (JObject us)]"
    using UpdateAccount_sends [OF um] by blast
  from em ek esent um uk usent show ?thesis by blast
qed

theorem partial_patch_and_update_witness:
  "can_build lib0 (patch_request lib0 client0 5
     (JObject [(''account_type'', JString ''agency''), (''account_id'', JString ''id''),
               (''user_id'', JString ''id'')])) \<and>
   sent (snd (UpdateAccountMembership lib0 (scripted answers_ok []) client0 5 type_only net0)) =
     [patch_request lib0 client0 5
        (JObject [(''account_type'', JString ''agency''), (''account_id'', JString ''id''),
                  (''user_id'', JString ''id'')])] \<and>
   url_Parse lib0 (BaseURL client0) = Inr url0 \<and>
   GetAccountType_Update agency_only = ''agency'' \<and>
   can_build lib0 (put_request lib0 client0 5 url0 ''agency''
     (JObject [(''user_id'', JNull), (''agencyId'', JString ''id'')])) \<and>
   sent (snd (UpdateAccount lib0 (scripted answers_ok []) client0 5 agency_only net0)) =
     [put_request lib0 client0 5 url0 ''agency''
        (JObject [(''user_id'', JNull), (''agencyId'', JString ''id'')])]"
proof -
  note T = partial_patch_and_update [where L = lib0 and e = type_only and c = client0 and mid = 5
      and P = "scripted answers_ok []" and s = net0 and i = agency_only and aid = 5]
  have d1: "json_Marshal lib0 (fields_UpdateAccountMembershipEvent type_only) =
     Inr (JObject [(''account_type'', JString ''agency''), (''account_id'', JString ''id''),
                   (''user_id'', JString ''id'')])"
    by (simp add: json_Marshal_def fields_UpdateAccountMembershipEvent_def type_only_def lib0_def)
  have d2: "json_Marshal lib0 (fields_UpdateAccountInput agency_only) =
     Inr (JObject [(''user_id'', JNull), (''agencyId'', JString ''id'')])"
    by (simp add: json_Marshal_def fields_UpdateAccountInput_def agency_only_def update_of_def
          lib0_def)
  have t: "GetAccountType_Update agency_only = ''agency''"
    by (simp add: GetAccountType_Update_def agency_only_def update_of_def)
  have parse: "url_Parse lib0 (BaseURL client0) = Inr url0"
    by (simp add: lib0_def client0_def url0_def)
  have b1: "can_build lib0 (patch_request lib0 client0 5
     (JObject [(''account_type'', JString ''agency''), (''account_id'', JString ''id''),
               (''user_id'', JString ''id'')]))"
    by (simp add: can_build_def lib0_def)
  have b2: "can_build lib0 (put_request lib0 client0 5 url0 ''agency''
     (JObject [(''user_id'', JNull), (''agencyId'', JString ''id'')]))"
    by (simp add: can_build_def lib0_def)
  from T d1 b1
  have r1: "sent (snd (UpdateAccountMembership lib0 (scripted answers_ok []) client0 5 type_only net0))
     = sent net0 @ [patch_request lib0 client0 5
        (JObject [(''account_type'', JString ''agency''), (''account_id'', JString ''id''),
                  (''user_id'', JString ''id'')])]"
    by auto
  from T d2 b2 t parse
  have r2: "sent (snd (UpdateAccount lib0 (scripted answers_ok []) client0 5 agency_only net0))
     = sent net0 @ [put_request lib0 client0 5 url0 ''agency''
        (JObject [(''user_id'', JNull), (''agencyId'', JString ''id'')])]"
    by auto
  from b1 b2 t parse r1 r2 show ?thesis by (simp add: net0_def)
qed

section \<open>Properties: tokens\<close>

text \<open>
  The document written for the payload of \<^verbatim>\<open>CreateToken\<close>, and the function with its
  first clock reading and its request named.
\<close>

lemma marshal_token:
  "json_Marshal L (fields_Token (token_payload userID scope now)) =
     (case time_MarshalJSON L (now + 86400000000000) of
        Inl err \<Rightarrow> Inl err
      | Inr txt \<Rightarrow>
          Inr (JObject [(''Plaintext'', JString []), (''Hash'', JNull),
                        (''UserID'', JString (uuid_String L userID)), (''Expiry'', JString txt),
                        (''Scope'', JString scope), (''Error'', JNull)]))"
  by (simp add: json_Marshal_def fields_Token_def token_payload_def split: sum.splits)

lemma CreateToken_unfold:
  assumes "clock P (world s) = (now, w1)"
  shows "CreateToken L P c userID scope s =
     (case Token_Validate P (token_payload userID scope now) (s\<lparr>world := w1\<rparr>) of
        (Some err, s2) \<Rightarrow> (Inl err, s2)
      | (None, s2) \<Rightarrow>
          (case json_Marshal L (fields_Token (token_payload userID scope now)) of
             Inl err \<Rightarrow> (Inl err, s2)
           | Inr jsonPayload \<Rightarrow>
               (case NewRequest_err L ''POST'' (BaseURL c @ ''/api/tokens'') of
                  Some err \<Rightarrow> (Inl (Errorf ''unable to create new request: %w'' [AErr err]), s2)
                | None \<Rightarrow>
                    (case HttpClient_Do P (token_request c jsonPayload) s2 of
                       (Inl err, s3) \<Rightarrow> (Inl (Errorf ''unable to send request: %w'' [AErr err]), s3)
                     | (Inr res, s3) \<Rightarrow>
                         if StatusCode res \<noteq> 201
                         then (Inl (Errorf ''unexpected status code: got %v, body: %s''
                                      [AInt (StatusCode res), AStr (Body res)]), s3)
                         else (case Decode_Token L res of
                                 Inl err \<Rightarrow>
                                   (Inl (Errorf ''failed to decode response body: %w'' [AErr err]), s3)
                               | Inr createdToken \<Rightarrow> (Inr createdToken, s3))))))"
  using assms
  by (simp add: CreateToken_def time_Now_def token_payload_def time_Add_def time_Hour_def
        http_NewRequest_def token_request_def Header_Set_def http_StatusCreated_def Let_def
        split: prod.splits option.splits sum.splits)

lemma Token_Validate_sent: "sent (snd (Token_Validate P t s)) = sent s"
  by (simp add: Token_Validate_def time_Now_def split: prod.splits)

lemma HttpClient_Do_sent: "sent (snd (HttpClient_Do P req s)) = sent s @ [req]"
  by (simp add: HttpClient_Do_def split: prod.splits)


text \<open>
  C10. \<^verbatim>\<open>CreateToken\<close> takes a user identifier and a scope and no expiry. When the clock
  reads \<open>now\<close> at the call, the expiry of the payload is \<open>now\<close> plus 24 hours, which is
  later than \<open>now\<close>; the function either sends nothing or sends one request, whose body
  is that payload with the text of that instant as its member \<^verbatim>\<open>Expiry\<close>.
\<close>

theorem CreateToken_expiry_fixed:
  assumes "clock P (world s) = (now, w1)"
  shows "(sent (snd (CreateToken L P c userID scope s)) = sent s \<or>
          (\<exists>ms rendered.
             json_Marshal L (fields_Token (token_payload userID scope now)) = Inr (JObject ms) \<and>
             time_MarshalJSON L (now + 86400000000000) = Inr rendered \<and>
             map_of ms ''Expiry'' = Some (JString rendered) \<and>
             sent (snd (CreateToken L P c userID scope s)) = sent s @ [token_request c (JObject ms)])) \<and>
         tok_Expiry (token_payload userID scope now) = now + 24 * time_Hour \<and>
         now < tok_Expiry (token_payload userID scope now)"
proof -
  have e: "tok_Expiry (token_payload userID scope now) = now + 24 * time_Hour"
      "now < tok_Expiry (token_payload userID scope now)"
    by (simp_all add: token_payload_def time_Hour_def)
  obtain r s2 where V: "Token_Validate P (token_payload userID scope now) (s\<lparr>world := w1\<rparr>) = (r, s2)"
    by (cases "Token_Validate P (token_payload userID scope now) (s\<lparr>world := w1\<rparr>)")
  have v: "sent s2 = sent s"
    using Token_Validate_sent [of P "token_payload userID scope now" "s\<lparr>world := w1\<rparr>"] V by simp
  show ?thesis
  proof (cases "time_MarshalJSON L (now + 86400000000000)")
    case (Inl err)
    then have "sent (snd (CreateToken L P c userID scope s)) = sent s"
      using v by (simp add: CreateToken_unfold [OF assms] V marshal_token split: option.splits)
    with e show ?thesis by simp
  next
    case (Inr rendered)
    let ?ms = "[(''Plaintext'', JString []), (''Hash'', JNull),
                (''UserID'', JString (uuid_String L userID)), (''Expiry'', JString rendered),
                (''Scope'', JString scope), (''Error'', JNull)]"
    have m: "json_Marshal L (fields_Token (token_payload userID scope now)) = Inr (JObject ?ms)"
      by (simp add: marshal_token Inr)
    have x: "map_of ?ms ''Expiry'' = Some (JString rendered)" by simp
    obtain out s3 where D: "HttpClient_Do P (token_request c (JObject ?ms)) s2 = (out, s3)"
      by (cases "HttpClient_Do P (token_request c (JObject ?ms)) s2")
    have d: "sent s3 = sent s @ [token_request c (JObject ?ms)]"
      using HttpClient_Do_sent [of P "token_request c (JObject ?ms)" s2] D v by simp
    have "sent (snd (CreateToken L P c userID scope s)) = sent s \<or>
          sent (snd (CreateToken L P c userID scope s)) = sent s @ [token_request c (JObject ?ms)]"
      using v d
      by (simp add: CreateToken_unfold [OF assms] V m D split: option.splits sum.splits)
    with m x Inr e show ?thesis by blast
  qed
qed

theorem CreateToken_expiry_fixed_witness:
  "clock (scripted answers_created [5, 6]) (world net0) = (5, (0, 1)) \<and>
   sent (snd (CreateToken lib0 (scripted answers_created [5, 6]) client0 1 ''read'' net0)) =
     [token_request client0
        (JObject [(''Plaintext'', JString []), (''Hash'', JNull), (''UserID'', JString ''id''),
                  (''Expiry'', JString ''instant''), (''Scope'', JString ''read''),
                  (''Error'', JNull)])] \<and>
   tok_Expiry (token_payload 1 ''read'' 5) = 5 + day \<and>
   5 < tok_Expiry (token_payload 1 ''read'' 5)"
proof -
  have ck: "clock (scripted answers_created [5, 6]) (world net0) = (5, (0, 1))"
    by (simp add: scripted_def net0_def)
  note T = CreateToken_expiry_fixed [OF ck, where L = lib0 and c = client0 and userID = 1
      and scope = "''read''"]
  have run: "sent (snd (CreateToken lib0 (scripted answers_created [5, 6]) client0 1 ''read'' net0)) =
     [token_request client0
        (JObject [(''Plaintext'', JString []), (''Hash'', JNull), (''UserID'', JString ''id''),
                  (''Expiry'', JString ''instant''), (''Scope'', JString ''read''),
                  (''Error'', JNull)])]"
    unfolding CreateToken_unfold [OF ck]
    by (simp add: Token_Validate_def token_payload_def time_Now_def time_Before_def uuid_Nil_def
          scripted_def net0_def json_Marshal_def fields_Token_def lib0_def HttpClient_Do_def
          answers_created_def answer_def)
  from T ck run show ?thesis by (simp add: day_def time_Hour_def)
qed



section \<open>Properties: the status codes of the delete operations\<close>

lemma answered_none: "answered P s s = None"
  by (simp add: answered_def)

lemma Do_answered:
  "HttpClient_Do P req s = (out, s') \<Longrightarrow> answered P s s' = Some out"
  by (auto simp: HttpClient_Do_def answered_def split: prod.splits)

text \<open>
  One lemma per operation: when the operation has sent its request and the transport has
  answered it with the response \<open>resp\<close>, the result is decided by the status code.
\<close>

lemma DeletePermission_status:
  assumes "DeletePermission L P c permissionID s = (r, s')"
    and "answered P s s' = Some (Inr resp)"
  shows "judged (\<lambda>n. n = 200) resp r"
  using assms
  by (auto simp: DeletePermission_def http_NewRequest_def Let_def answered_none io_ReadAll_def
        http_StatusOK_def http_StatusNoContent_def judged_def
        dest!: Do_answered split: if_splits sum.splits option.splits prod.splits)

lemma DeleteAccountMembership_status:
  assumes "DeleteAccountMembership L P c accountID userID s = (r, s')"
    and "answered P s s' = Some (Inr resp)"
  shows "judged (\<lambda>n. n = 200) resp r"
  using assms
  by (auto simp: DeleteAccountMembership_def http_NewRequest_def Let_def answered_none io_ReadAll_def
        http_StatusOK_def http_StatusNoContent_def judged_def
        dest!: Do_answered split: if_splits sum.splits option.splits prod.splits)

lemma DeleteEnterpriseAccount_status:
  assumes "DeleteEnterpriseAccount L P c enterpriseID s = (r, s')"
    and "answered P s s' = Some (Inr resp)"
  shows "judged (\<lambda>n. n = 200) resp r"
  using assms
  by (auto simp: DeleteEnterpriseAccount_def http_NewRequest_def Let_def answered_none io_ReadAll_def
        http_StatusOK_def http_StatusNoContent_def judged_def
        dest!: Do_answered split: if_splits sum.splits option.splits prod.splits)

lemma DeleteGovernmentAccount_status:
  assumes "DeleteGovernmentAccount L P c accountID s = (r, s')"
    and "answered P s s' = Some (Inr resp)"
  shows "judged (\<lambda>n. n = 200) resp r"
  using assms
  by (auto simp: DeleteGovernmentAccount_def http_NewRequest_def Let_def answered_none io_ReadAll_def
        http_StatusOK_def http_StatusNoContent_def judged_def
        dest!: Do_answered split: if_splits sum.splits option.splits prod.splits)

lemma DeleteServiceAccount_status:
  assumes "DeleteServiceAccount L P c serviceAccountID s = (r, s')"
    and "answered P s s' = Some (Inr resp)"
  shows "judged (\<lambda>n. n = 200) resp r"
  using assms
  by (auto simp: DeleteServiceAccount_def http_NewRequest_def Let_def answered_none io_ReadAll_def
        http_StatusOK_def http_StatusNoContent_def judged_def
        dest!: Do_answered split: if_splits sum.splits option.splits prod.splits)

lemma DeleteTokensByUserID_status:
  assumes "DeleteTokensByUserID L P c userID s = (r, s')"
    and "answered P s s' = Some (Inr resp)"
  shows "judged (\<lambda>n. n = 200) resp r"
  using assms
  by (auto simp: DeleteTokensByUserID_def http_NewRequest_def Let_def answered_none io_ReadAll_def
        http_StatusOK_def http_StatusNoContent_def judged_def
        dest!: Do_answered split: if_splits sum.splits option.splits prod.splits)

lemma DeleteExpiredTokens_status:
  assumes "DeleteExpiredTokens L P c s = (r, s')"
    and "answered P s s' = Some (Inr resp)"
  shows "judged (\<lambda>n. n = 200) resp r"
  using assms
  by (auto simp: DeleteExpiredTokens_def http_NewRequest_def Let_def answered_none io_ReadAll_def
        http_StatusOK_def http_StatusNoContent_def judged_def
        dest!: Do_answered split: if_splits sum.splits option.splits prod.splits)

lemma DeleteToken_status:
  assumes "DeleteToken L P c userID tokenID s = (r, s')"
    and "answered P s s' = Some (Inr resp)"
  shows "judged (\<lambda>n. n = 204) resp r"
  using assms
  by (auto simp: DeleteToken_def http_NewRequest_def Let_def answered_none io_ReadAll_def
        http_StatusOK_def http_StatusNoContent_def judged_def
        dest!: Do_answered split: if_splits sum.splits option.splits prod.splits)

lemma DeleteAgencyAccount_status:
  assumes "DeleteAgencyAccount L P c agencyID s = (r, s')"
    and "answered P s s' = Some (Inr resp)"
  shows "judged (\<lambda>n. 200 \<le> n \<and> n < 300) resp r"
  using assms
  by (auto simp: DeleteAgencyAccount_def http_NewRequest_def Let_def answered_none io_ReadAll_def
        http_StatusOK_def http_StatusNoContent_def judged_def
        dest!: Do_answered split: if_splits sum.splits option.splits prod.splits)

lemma DeleteBusinessAccount_status:
  assumes "DeleteBusinessAccount L P c businessID s = (r, s')"
    and "answered P s s' = Some (Inr resp)"
  shows "(r = None \<longleftrightarrow> StatusCode resp = 200) \<and>
         (\<forall>e. r = Some e \<longrightarrow> e = Errorf ''unexpected HTTP status: %s'' [AStr (Status resp)])"
  using assms
  by (auto simp: DeleteBusinessAccount_def http_NewRequest_def Let_def answered_none
        http_StatusOK_def
        dest!: Do_answered split: if_splits sum.splits option.splits prod.splits)

lemma DeleteCelebrityAccount_status:
  assumes "DeleteCelebrityAccount L P c userID celebrityID s = (r, s')"
    and "answered P s s' = Some (Inr resp)"
  shows "(r = None \<longleftrightarrow>
            StatusCode resp = 200 \<and>
            (\<exists>d. Decode_CelebrityResponse L resp = Inr d \<and> ccr_Status d = ''success'')) \<and>
         (\<forall>e. r = Some e \<and> StatusCode resp \<noteq> 200 \<longrightarrow> carries (Body resp) e)"
  using assms
  by (auto simp: DeleteCelebrityAccount_def http_NewRequest_def Let_def answered_none io_ReadAll_def
        http_StatusOK_def
        dest!: Do_answered split: if_splits sum.splits option.splits prod.splits)

lemma DeleteAccountLink_status:
  assumes "DeleteAccountLink L P c accountLinkRequest s = (rl, s')"
    and "answered P s s' = Some (Inr resp)"
  shows "rl \<noteq> None \<and> (rl = Some None \<longleftrightarrow> StatusCode resp = 200) \<and>
         (\<forall>e. rl = Some (Some e) \<and> BodyErr resp = None \<longrightarrow> carries (Body resp) e)"
  using assms
  by (auto simp: DeleteAccountLink_def http_NewRequest_def Let_def answered_none io_ReadAll_def
        http_StatusOK_def
        dest!: Do_answered split: if_splits sum.splits option.splits prod.splits)

text \<open>
  C7, as stated, fails. \<^verbatim>\<open>DeleteAgencyAccount\<close> returns \<^verbatim>\<open>nil\<close> on status 204, since it
  accepts every status from 200 to 299. The error of \<^verbatim>\<open>DeleteBusinessAccount\<close> on status
  500 carries the status line and not the body. \<^verbatim>\<open>DeleteCelebrityAccount\<close> returns an error
  on status 200 when the decoded body does not say "success". The error of the fan-out
  \<^verbatim>\<open>DeleteAccount\<close> carries the status line, and the one of \<^verbatim>\<open>DeleteAccountLink\<close> carries
  the read error when the body cannot be read.
\<close>

theorem delete_status_counterexample:
  "fst (DeleteAgencyAccount lib0 (scripted [answer 204 ''gone''] []) client0 9 net0) = None \<and>
   fst (DeleteBusinessAccount lib0 (scripted [answer 500 ''boom''] []) client0 9 net0) =
     Some (Errorf ''unexpected HTTP status: %s'' [AStr ''status'']) \<and>
   \<not> carries ''boom'' (Errorf ''unexpected HTTP status: %s'' [AStr ''status'']) \<and>
   fst (DeleteCelebrityAccount lib0 (scripted [answer 200 ''failed''] []) client0 8 9 net0) =
     Some (Errorf ''failed to delete celebrity account: %s'' [AStr []]) \<and>
   fst (DeleteAccount lib0 (scripted answers_broken []) client0 9 net0) =
     Some (Errorf ''unexpected response from server: %s'' [AStr ''status'']) \<and>
   fst (DeleteAccountLink lib0
          (scripted [Inr \<lparr>StatusCode = 500, Status = ''status'', Body = ''bo'',
                          BodyErr = Some (ErrorsNew ''unexpected EOF'')\<rparr>] [])
          client0 (Some \<lparr>alr_UserID = 8, alr_AccountType = ''agency'', alr_AccountID = 9\<rparr>) net0) =
     Some (Some (Errorf ''failed reading server response: %w'' [AErr (ErrorsNew ''unexpected EOF'')]))"
proof -
  have a: "fst (DeleteAgencyAccount lib0 (scripted [answer 204 ''gone''] []) client0 9 net0) = None"
    by (simp add: DeleteAgencyAccount_def lib0_def client0_def scripted_def net0_def
          http_NewRequest_def HttpClient_Do_def Header_Set_def answer_def)
  have b: "fst (DeleteBusinessAccount lib0 (scripted [answer 500 ''boom''] []) client0 9 net0) =
     Some (Errorf ''unexpected HTTP status: %s'' [AStr ''status''])"
    by (simp add: DeleteBusinessAccount_def lib0_def client0_def scripted_def net0_def
          http_NewRequest_def HttpClient_Do_def Header_Add_def answer_def http_StatusOK_def)
  have c: "fst (DeleteCelebrityAccount lib0 (scripted [answer 200 ''failed''] []) client0 8 9 net0) =
     Some (Errorf ''failed to delete celebrity account: %s'' [AStr []])"
    by (simp add: DeleteCelebrityAccount_def lib0_def client0_def scripted_def net0_def
          http_NewRequest_def HttpClient_Do_def Header_Set_def answer_def http_StatusOK_def
          Values_Set_def)
  have d: "fst (DeleteAccount lib0 (scripted answers_broken []) client0 9 net0) =
     Some (Errorf ''unexpected response from server: %s'' [AStr ''status''])"
    by (simp add: DeleteAccount_def accountTypes_def lib0_def client0_def scripted_def net0_def
          http_NewRequest_def HttpClient_Do_def Header_Set_def answer_def answers_broken_def
          http_StatusOK_def http_StatusNotFound_def)
  have e: "fst (DeleteAccountLink lib0
          (scripted [Inr \<lparr>StatusCode = 500, Status = ''status'', Body = ''bo'',
                          BodyErr = Some (ErrorsNew ''unexpected EOF'')\<rparr>] [])
          client0 (Some \<lparr>alr_UserID = 8, alr_AccountType = ''agency'', alr_AccountID = 9\<rparr>) net0) =
     Some (Some (Errorf ''failed reading server response: %w'' [AErr (ErrorsNew ''unexpected EOF'')]))"
    by (simp add: DeleteAccountLink_def lib0_def client0_def scripted_def net0_def
          http_NewRequest_def HttpClient_Do_def Header_Add_def io_ReadAll_def http_StatusOK_def)
  from a b c d e show ?thesis by simp
qed

text \<open>
  C7, amended. For the \<^verbatim>\<open>Delete...\<close> methods that send one request: exactly status 200 is
  success for \<^verbatim>\<open>DeletePermission\<close>, \<^verbatim>\<open>DeleteAccountMembership\<close>,
  \<^verbatim>\<open>DeleteEnterpriseAccount\<close>, \<^verbatim>\<open>DeleteGovernmentAccount\<close>, \<^verbatim>\<open>DeleteServiceAccount\<close>,
  \<^verbatim>\<open>DeleteTokensByUserID\<close>, \<^verbatim>\<open>DeleteExpiredTokens\<close>, \<^verbatim>\<open>DeleteBusinessAccount\<close> and
  \<^verbatim>\<open>DeleteAccountLink\<close>; exactly 204 for \<^verbatim>\<open>DeleteToken\<close>; every status from 200 to 299
  for \<^verbatim>\<open>DeleteAgencyAccount\<close>; and 200 with a decoded body of status "success" for
  \<^verbatim>\<open>DeleteCelebrityAccount\<close>. Any other status yields an error, which carries the body of
  the response, except that the error of \<^verbatim>\<open>DeleteBusinessAccount\<close> carries the status line
  and that \<^verbatim>\<open>DeleteAccountLink\<close> carries the body when reading it succeeds.
\<close>

theorem delete_status_codes:
  "(DeletePermission L P c permissionID s = (r, s') \<and> answered P s s' = Some (Inr resp) \<longrightarrow>
      judged (\<lambda>n. n = 200) resp r) \<and>
   (DeleteAccountMembership L P c accountID userID s = (r, s') \<and> answered P s s' = Some (Inr resp) \<longrightarrow>
      judged (\<lambda>n. n = 200) resp r) \<and>
   (DeleteEnterpriseAccount L P c enterpriseID s = (r, s') \<and> answered P s s' = Some (Inr resp) \<longrightarrow>
      judged (\<lambda>n. n = 200) resp r) \<and>
   (DeleteGovernmentAccount L P c accountID s = (r, s') \<and> answered P s s' = Some (Inr resp) \<longrightarrow>
      judged (\<lambda>n. n = 200) resp r) \<and>
   (DeleteServiceAccount L P c serviceAccountID s = (r, s') \<and> answered P s s' = Some (Inr resp) \<longrightarrow>
      judged (\<lambda>n. n = 200) resp r) \<and>
   (DeleteTokensByUserID L P c userID s = (r, s') \<and> answered P s s' = Some (Inr resp) \<longrightarrow>
      judged (\<lambda>n. n = 200) resp r) \<and>
   (DeleteExpiredTokens L P c s = (r, s') \<and> answered P s s' = Some (Inr resp) \<longrightarrow>
      judged (\<lambda>n. n = 200) resp r) \<and>
   (DeleteToken L P c userID tokenID s = (r, s') \<and> answered P s s' = Some (Inr resp) \<longrightarrow>
      judged (\<lambda>n. n = 204) resp r) \<and>
   (DeleteAgencyAccount L P c agencyID s = (r, s') \<and> answered P s s' = Some (Inr resp) \<longrightarrow>
      judged (\<lambda>n. 200 \<le> n \<and> n < 300) resp r) \<and>
   (DeleteBusinessAccount L P c businessID s = (r, s') \<and>
      answered P s s' = Some (Inr resp) \<longrightarrow>
      (r = None \<longleftrightarrow> StatusCode resp = 200) \<and>
      (\<forall>e. r = Some e \<longrightarrow> e = Errorf ''unexpected HTTP status: %s'' [AStr (Status resp)])) \<and>
   (DeleteCelebrityAccount L P c userID celebrityID s = (r, s') \<and>
      answered P s s' = Some (Inr resp) \<longrightarrow>
      (r = None \<longleftrightarrow>
         StatusCode resp = 200 \<and>
         (\<exists>d. Decode_CelebrityResponse L resp = Inr d \<and> ccr_Status d = ''success'')) \<and>
      (\<forall>e. r = Some e \<and> StatusCode resp \<noteq> 200 \<longrightarrow> carries (Body resp) e)) \<and>
   (DeleteAccountLink L P c accountLinkRequest s = (rl, s') \<and>
      answered P s s' = Some (Inr resp) \<longrightarrow>
      rl \<noteq> None \<and> (rl = Some None \<longleftrightarrow> StatusCode resp = 200) \<and>
      (\<forall>e. rl = Some (Some e) \<and> BodyErr resp = None \<longrightarrow> carries (Body resp) e))"
proof -
  have "(DeletePermission L P c permissionID s = (r, s') \<and> answered P s s' = Some (Inr resp) \<longrightarrow>
      judged (\<lambda>n. n = 200) resp r)"
    using DeletePermission_status by blast
  moreover
  have "(DeleteAccountMembership L P c accountID userID s = (r, s') \<and> answered P s s' = Some (Inr resp) \<longrightarrow>
      judged (\<lambda>n. n = 200) resp r)"
    using DeleteAccountMembership_status by blast
  moreover
  have "(DeleteEnterpriseAccount L P c enterpriseID s = (r, s') \<and> answered P s s' = Some (Inr resp) \<longrightarrow>
      judged (\<lambda>n. n = 200) resp r)"
    using DeleteEnterpriseAccount_status by blast
  moreover
  have "(DeleteGovernmentAccount L P c accountID s = (r, s') \<and> answered P s s' = Some (Inr resp) \<longrightarrow>
      judged (\<lambda>n. n = 200) resp r)"
    using DeleteGovernmentAccount_status by blast
  moreover
  have "(DeleteServiceAccount L P c serviceAccountID s = (r, s') \<and> answered P s s' = Some (Inr resp) \<longrightarrow>
      judged (\<lambda>n. n = 200) resp r)"
    using DeleteServiceAccount_status by blast
  moreover
  have "(DeleteTokensByUserID L P c userID s = (r, s') \<and> answered P s s' = Some (Inr resp) \<longrightarrow>
      judged (\<lambda>n. n = 200) resp r)"
    using DeleteTokensByUserID_status by blast
  moreover
  have "(DeleteExpiredTokens L P c s = (r, s') \<and> answered P s s' = Some (Inr resp) \<longrightarrow>
      judged (\<lambda>n. n = 200) resp r)"
    using DeleteExpiredTokens_status by blast
  moreover
  have "(DeleteToken L P c userID tokenID s = (r, s') \<and> answered P s s' = Some (Inr resp) \<longrightarrow>
      judged (\<lambda>n. n = 204) resp r)"
    using DeleteToken_status by blast
  moreover
  have "(DeleteAgencyAccount L P c agencyID s = (r, s') \<and> answered P s s' = Some (Inr resp) \<longrightarrow>
      judged (\<lambda>n. 200 \<le> n \<and> n < 300) resp r)"
    using DeleteAgencyAccount_status by blast
  moreover
  have "(DeleteBusinessAccount L P c businessID s = (r, s') \<and>
      answered P s s' = Some (Inr resp) \<longrightarrow>
      (r = None \<longleftrightarrow> StatusCode resp = 200) \<and>
      (\<forall>e. r = Some e \<longrightarrow> e = Errorf ''unexpected HTTP status: %s'' [AStr (Status resp)]))"
    using DeleteBusinessAccount_status by blast
  moreover
  have "(DeleteCelebrityAccount L P c userID celebrityID s = (r, s') \<and>
      answered P s s' = Some (Inr resp) \<longrightarrow>
      (r = None \<longleftrightarrow>
         StatusCode resp = 200 \<and>
         (\<exists>d. Decode_CelebrityResponse L resp = Inr d \<and> ccr_Status d = ''success'')) \<and>
      (\<forall>e. r = Some e \<and> StatusCode resp \<noteq> 200 \<longrightarrow> carries (Body resp) e))"
    using DeleteCelebrityAccount_status by blast
  moreover
  have "(DeleteAccountLink L P c accountLinkRequest s = (rl, s') \<and>
      answered P s s' = Some (Inr resp) \<longrightarrow>
      rl \<noteq> None \<and> (rl = Some None \<longleftrightarrow> StatusCode resp = 200) \<and>
      (\<forall>e. rl = Some (Some e) \<and> BodyErr resp = None \<longrightarrow> carries (Body resp) e))"
    using DeleteAccountLink_status by blast
  ultimately show ?thesis by (intro conjI)
qed

theorem delete_status_codes_witness:
  "answered (scripted [answer 500 ''boom''] []) net0 (snd (DeletePermission lib0 (scripted [answer 500 ''boom''] []) client0 9 net0)) = Some (answer 500 ''boom'') \<and>
   judged (\<lambda>n. n = 200) \<lparr>StatusCode = 500, Status = ''status'', Body = ''boom'', BodyErr = None\<rparr> (fst (DeletePermission lib0 (scripted [answer 500 ''boom''] []) client0 9 net0)) \<and>
   answered (scripted [answer 500 ''boom''] []) net0 (snd (DeleteAccountMembership lib0 (scripted [answer 500 ''boom''] []) client0 9 8 net0)) = Some (answer 500 ''boom'') \<and>
   judged (\<lambda>n. n = 200) \<lparr>StatusCode = 500, Status = ''status'', Body = ''boom'', BodyErr = None\<rparr> (fst (DeleteAccountMembership lib0 (scripted [answer 500 ''boom''] []) client0 9 8 net0)) \<and>
   answered (scripted [answer 500 ''boom''] []) net0 (snd (DeleteEnterpriseAccount lib0 (scripted [answer 500 ''boom''] []) client0 9 net0)) = Some (answer 500 ''boom'') \<and>
   judged (\<lambda>n. n = 200) \<lparr>StatusCode = 500, Status = ''status'', Body = ''boom'', BodyErr = None\<rparr> (fst (DeleteEnterpriseAccount lib0 (scripted [answer 500 ''boom''] []) client0 9 net0)) \<and>
   answered (scripted [answer 500 ''boom''] []) net0 (snd (DeleteGovernmentAccount lib0 (scripted [answer 500 ''boom''] []) client0 9 net0)) = Some (answer 500 ''boom'') \<and>
   judged (\<lambda>n. n = 200) \<lparr>StatusCode = 500, Status = ''status'', Body = ''boom'', BodyErr = None\<rparr> (fst (DeleteGovernmentAccount lib0 (scripted [answer 500 ''boom''] []) client0 9 net0)) \<and>
   answered (scripted [answer 200 []] []) net0 (snd (DeleteServiceAccount lib0 (scripted [answer 200 []] []) client0 9 net0)) = Some (answer 200 []) \<and>
   judged (\<lambda>n. n = 200) \<lparr>StatusCode = 200, Status = ''status'', Body = [], BodyErr = None\<rparr> (fst (DeleteServiceAccount lib0 (scripted [answer 200 []] []) client0 9 net0)) \<and>
   answered (scripted [answer 204 ''boom''] []) net0 (snd (DeleteTokensByUserID lib0 (scripted [answer 204 ''boom''] []) client0 9 net0)) = Some (answer 204 ''boom'') \<and>
   judged (\<lambda>n. n = 200) \<lparr>StatusCode = 204, Status = ''status'', Body = ''boom'', BodyErr = None\<rparr> (fst (DeleteTokensByUserID lib0 (scripted [answer 204 ''boom''] []) client0 9 net0)) \<and>
   answered (scripted [answer 404 ''boom''] []) net0 (snd (DeleteExpiredTokens lib0 (scripted [answer 404 ''boom''] []) client0 net0)) = Some (answer 404 ''boom'') \<and>
   judged (\<lambda>n. n = 200) \<lparr>StatusCode = 404, Status = ''status'', Body = ''boom'', BodyErr = None\<rparr> (fst (DeleteExpiredTokens lib0 (scripted [answer 404 ''boom''] []) client0 net0)) \<and>
   answered (scripted [answer 204 []] []) net0 (snd (DeleteToken lib0 (scripted [answer 204 []] []) client0 9 8 net0)) = Some (answer 204 []) \<and>
   judged (\<lambda>n. n = 204) \<lparr>StatusCode = 204, Status = ''status'', Body = [], BodyErr = None\<rparr> (fst (DeleteToken lib0 (scripted [answer 204 []] []) client0 9 8 net0)) \<and>
   answered (scripted [answer 204 []] []) net0 (snd (DeleteAgencyAccount lib0 (scripted [answer 204 []] []) client0 9 net0)) = Some (answer 204 []) \<and>
   judged (\<lambda>n. 200 \<le> n \<and> n < 300) \<lparr>StatusCode = 204, Status = ''status'', Body = [], BodyErr = None\<rparr> (fst (DeleteAgencyAccount lib0 (scripted [answer 204 []] []) client0 9 net0)) \<and>
   answered (scripted [answer 500 ''boom''] []) net0 (snd (DeleteBusinessAccount lib0 (scripted [answer 500 ''boom''] []) client0 9 net0)) = Some (answer 500 ''boom'') \<and>
   fst (DeleteBusinessAccount lib0 (scripted [answer 500 ''boom''] []) client0 9 net0) \<noteq> None \<and>
   answered (scripted [answer 200 ''success''] []) net0 (snd (DeleteCelebrityAccount lib0 (scripted [answer 200 ''success''] []) client0 8 9 net0)) = Some (answer 200 ''success'') \<and>
   fst (DeleteCelebrityAccount lib0 (scripted [answer 200 ''success''] []) client0 8 9 net0) = None \<and>
   answered (scripted [answer 500 ''boom''] []) net0 (snd (DeleteAccountLink lib0 (scripted [answer 500 ''boom''] []) client0 (Some \<lparr>alr_UserID = 8, alr_AccountType = ''agency'', alr_AccountID = 9\<rparr>) net0)) = Some (answer 500 ''boom'') \<and>
   fst (DeleteAccountLink lib0 (scripted [answer 500 ''boom''] []) client0 (Some \<lparr>alr_UserID = 8, alr_AccountType = ''agency'', alr_AccountID = 9\<rparr>) net0) \<noteq> None \<and> fst (DeleteAccountLink lib0 (scripted [answer 500 ''boom''] []) client0 (Some \<lparr>alr_UserID = 8, alr_AccountType = ''agency'', alr_AccountID = 9\<rparr>) net0) \<noteq> Some None"
proof -
  have a0: "answered (scripted [answer 500 ''boom''] []) net0 (snd (DeletePermission lib0 (scripted [answer 500 ''boom''] []) client0 9 net0)) =
      Some (Inr \<lparr>StatusCode = 500, Status = ''status'', Body = ''boom'', BodyErr = None\<rparr>)"
    by (simp add: DeletePermission_def lib0_def client0_def scripted_def net0_def answered_def http_NewRequest_def
          HttpClient_Do_def Header_Set_def Header_Add_def answer_def io_ReadAll_def uuid_Nil_def
          Client_Validate_def Values_Set_def http_StatusOK_def http_StatusNoContent_def)
  from delete_status_codes [where L = lib0 and P = "scripted [answer 500 ''boom''] []" and c = client0 and s = net0 and s' = "snd (DeletePermission lib0 (scripted [answer 500 ''boom''] []) client0 9 net0)" and resp = "\<lparr>StatusCode = 500, Status = ''status'', Body = ''boom'', BodyErr = None\<rparr>" and r = "fst (DeletePermission lib0 (scripted [answer 500 ''boom''] []) client0 9 net0)" and permissionID = "9"] a0
  have c0: "judged (\<lambda>n. n = 200) \<lparr>StatusCode = 500, Status = ''status'', Body = ''boom'', BodyErr = None\<rparr> (fst (DeletePermission lib0 (scripted [answer 500 ''boom''] []) client0 9 net0))"
    by simp
  have a1: "answered (scripted [answer 500 ''boom''] []) net0 (snd (DeleteAccountMembership lib0 (scripted [answer 500 ''boom''] []) client0 9 8 net0)) =
      Some (Inr \<lparr>StatusCode = 500, Status = ''status'', Body = ''boom'', BodyErr = None\<rparr>)"
    by (simp add: DeleteAccountMembership_def lib0_def client0_def scripted_def net0_def answered_def http_NewRequest_def
          HttpClient_Do_def Header_Set_def Header_Add_def answer_def io_ReadAll_def uuid_Nil_def
          Client_Validate_def Values_Set_def http_StatusOK_def http_StatusNoContent_def)
  from delete_status_codes [where L = lib0 and P = "scripted [answer 500 ''boom''] []" and c = client0 and s = net0 and s' = "snd (DeleteAccountMembership lib0 (scripted [answer 500 ''boom''] []) client0 9 8 net0)" and resp = "\<lparr>StatusCode = 500, Status = ''status'', Body = ''boom'', BodyErr = None\<rparr>" and r = "fst (DeleteAccountMembership lib0 (scripted [answer 500 ''boom''] []) client0 9 8 net0)" and accountID = "9" and userID = "8"] a1
  have c1: "judged (\<lambda>n. n = 200) \<lparr>StatusCode = 500, Status = ''status'', Body = ''boom'', BodyErr = None\<rparr> (fst (DeleteAccountMembership lib0 (scripted [answer 500 ''boom''] []) client0 9 8 net0))"
    by simp
  have a2: "answered (scripted [answer 500 ''boom''] []) net0 (snd (DeleteEnterpriseAccount lib0 (scripted [answer 500 ''boom''] []) client0 9 net0)) =
      Some (Inr \<lparr>StatusCode = 500, Status = ''status'', Body = ''boom'', BodyErr = None\<rparr>)"
    by (simp add: DeleteEnterpriseAccount_def lib0_def client0_def scripted_def net0_def answered_def http_NewRequest_def
          HttpClient_Do_def Header_Set_def Header_Add_def answer_def io_ReadAll_def uuid_Nil_def
          Client_Validate_def Values_Set_def http_StatusOK_def http_StatusNoContent_def)
  from delete_status_codes [where L = lib0 and P = "scripted [answer 500 ''boom''] []" and c = client0 and s = net0 and s' = "snd (DeleteEnterpriseAccount lib0 (scripted [answer 500 ''boom''] []) client0 9 net0)" and resp = "\<lparr>StatusCode = 500, Status = ''status'', Body = ''boom'', BodyErr = None\<rparr>" and r = "fst (DeleteEnterpriseAccount lib0 (scripted [answer 500 ''boom''] []) client0 9 net0)" and enterpriseID = "9"] a2
  have c2: "judged (\<lambda>n. n = 200) \<lparr>StatusCode = 500, Status = ''status'', Body = ''boom'', BodyErr = None\<rparr> (fst (DeleteEnterpriseAccount lib0 (scripted [answer 500 ''boom''] []) client0 9 net0))"
    by simp
  have a3: "answered (scripted [answer 500 ''boom''] []) net0 (snd (DeleteGovernmentAccount lib0 (scripted [answer 500 ''boom''] []) client0 9 net0)) =
      Some (Inr \<lparr>StatusCode = 500, Status = ''status'', Body = ''boom'', BodyErr = None\<rparr>)"
    by (simp add: DeleteGovernmentAccount_def lib0_def client0_def scripted_def net0_def answered_def http_NewRequest_def
          HttpClient_Do_def Header_Set_def Header_Add_def answer_def io_ReadAll_def uuid_Nil_def
          Client_Validate_def Values_Set_def http_StatusOK_def http_StatusNoContent_def)
  from delete_status_codes [where L = lib0 and P = "scripted [answer 500 ''boom''] []" and c = client0 and s = net0 and s' = "snd (DeleteGovernmentAccount lib0 (scripted [answer 500 ''boom''] []) client0 9 net0)" and resp = "\<lparr>StatusCode = 500, Status = ''status'', Body = ''boom'', BodyErr = None\<rparr>" and r = "fst (DeleteGovernmentAccount lib0 (scripted [answer 500 ''boom''] []) client0 9 net0)" and accountID = "9"] a3
  have c3: "judged (\<lambda>n. n = 200) \<lparr>StatusCode = 500, Status = ''status'', Body = ''boom'', BodyErr = None\<rparr> (fst (DeleteGovernmentAccount lib0 (scripted [answer 500 ''boom''] []) client0 9 net0))"
    by simp
  have a4: "answered (scripted [answer 200 []] []) net0 (snd (DeleteServiceAccount lib0 (scripted [answer 200 []] []) client0 9 net0)) =
      Some (Inr \<lparr>StatusCode = 200, Status = ''status'', Body = [], BodyErr = None\<rparr>)"
    by (simp add: DeleteServiceAccount_def lib0_def client0_def scripted_def net0_def answered_def http_NewRequest_def
          HttpClient_Do_def Header_Set_def Header_Add_def answer_def io_ReadAll_def uuid_Nil_def
          Client_Validate_def Values_Set_def http_StatusOK_def http_StatusNoContent_def)
  from delete_status_codes [where L = lib0 and P = "scripted [answer 200 []] []" and c = client0 and s = net0 and s' = "snd (DeleteServiceAccount lib0 (scripted [answer 200 []] []) client0 9 net0)" and resp = "\<lparr>StatusCode = 200, Status = ''status'', Body = [], BodyErr = None\<rparr>" and r = "fst (DeleteServiceAccount lib0 (scripted [answer 200 []] []) client0 9 net0)" and serviceAccountID = "9"] a4
  have c4: "judged (\<lambda>n. n = 200) \<lparr>StatusCode = 200, Status = ''status'', Body = [], BodyErr = None\<rparr> (fst (DeleteServiceAccount lib0 (scripted [answer 200 []] []) client0 9 net0))"
    by simp
  have a5: "answered (scripted [answer 204 ''boom''] []) net0 (snd (DeleteTokensByUserID lib0 (scripted [answer 204 ''boom''] []) client0 9 net0)) =
      Some (Inr \<lparr>StatusCode = 204, Status = ''status'', Body = ''boom'', BodyErr = None\<rparr>)"
    by (simp add: DeleteTokensByUserID_def lib0_def client0_def scripted_def net0_def answered_def http_NewRequest_def
          HttpClient_Do_def Header_Set_def Header_Add_def answer_def io_ReadAll_def uuid_Nil_def
          Client_Validate_def Values_Set_def http_StatusOK_def http_StatusNoContent_def)
  from delete_status_codes [where L = lib0 and P = "scripted [answer 204 ''boom''] []" and c = client0 and s = net0 and s' = "snd (DeleteTokensByUserID lib0 (scripted [answer 204 ''boom''] []) client0 9 net0)" and resp = "\<lparr>StatusCode = 204, Status = ''status'', Body = ''boom'', BodyErr = None\<rparr>" and r = "fst (DeleteTokensByUserID lib0 (scripted [answer 204 ''boom''] []) client0 9 net0)" and userID = "9"] a5
  have c5: "judged (\<lambda>n. n = 200) \<lparr>StatusCode = 204, Status = ''status'', Body = ''boom'', BodyErr = None\<rparr> (fst (DeleteTokensByUserID lib0 (scripted [answer 204 ''boom''] []) client0 9 net0))"
    by simp
  have a6: "answered (scripted [answer 404 ''boom''] []) net0 (snd (DeleteExpiredTokens lib0 (scripted [answer 404 ''boom''] []) client0 net0)) =
      Some (Inr \<lparr>StatusCode = 404, Status = ''status'', Body = ''boom'', BodyErr = None\<rparr>)"
    by (simp add: DeleteExpiredTokens_def lib0_def client0_def scripted_def net0_def answered_def http_NewRequest_def
          HttpClient_Do_def Header_Set_def Header_Add_def answer_def io_ReadAll_def uuid_Nil_def
          Client_Validate_def Values_Set_def http_StatusOK_def http_StatusNoContent_def)
  from delete_status_codes [where L = lib0 and P = "scripted [answer 404 ''boom''] []" and c = client0 and s = net0 and s' = "snd (DeleteExpiredTokens lib0 (scripted [answer 404 ''boom''] []) client0 net0)" and resp = "\<lparr>StatusCode = 404, Status = ''status'', Body = ''boom'', BodyErr = None\<rparr>" and r = "fst (DeleteExpiredTokens lib0 (scripted [answer 404 ''boom''] []) client0 net0)"] a6
  have c6: "judged (\<lambda>n. n = 200) \<lparr>StatusCode = 404, Status = ''status'', Body = ''boom'', BodyErr = None\<rparr> (fst (DeleteExpiredTokens lib0 (scripted [answer 404 ''boom''] []) client0 net0))"
    by simp
  have a7: "answered (scripted [answer 204 []] []) net0 (snd (DeleteToken lib0 (scripted [answer 204 []] []) client0 9 8 net0)) =
      Some (Inr \<lparr>StatusCode = 204, Status = ''status'', Body = [], BodyErr = None\<rparr>)"
    by (simp add: DeleteToken_def lib0_def client0_def scripted_def net0_def answered_def http_NewRequest_def
          HttpClient_Do_def Header_Set_def Header_Add_def answer_def io_ReadAll_def uuid_Nil_def
          Client_Validate_def Values_Set_def http_StatusOK_def http_StatusNoContent_def)
  from delete_status_codes [where L = lib0 and P = "scripted [answer 204 []] []" and c = client0 and s = net0 and s' = "snd (DeleteToken lib0 (scripted [answer 204 []] []) client0 9 8 net0)" and resp = "\<lparr>StatusCode = 204, Status = ''status'', Body = [], BodyErr = None\<rparr>" and r = "fst (DeleteToken lib0 (scripted [answer 204 []] []) client0 9 8 net0)" and userID = "9" and tokenID = "8"] a7
  have c7: "judged (\<lambda>n. n = 204) \<lparr>StatusCode = 204, Status = ''status'', Body = [], BodyErr = None\<rparr> (fst (DeleteToken lib0 (scripted [answer 204 []] []) client0 9 8 net0))"
    by simp
  have a8: "answered (scripted [answer 204 []] []) net0 (snd (DeleteAgencyAccount lib0 (scripted [answer 204 []] []) client0 9 net0)) =
      Some (Inr \<lparr>StatusCode = 204, Status = ''status'', Body = [], BodyErr = None\<rparr>)"
    by (simp add: DeleteAgencyAccount_def lib0_def client0_def scripted_def net0_def answered_def http_NewRequest_def
          HttpClient_Do_def Header_Set_def Header_Add_def answer_def io_ReadAll_def uuid_Nil_def
          Client_Validate_def Values_Set_def http_StatusOK_def http_StatusNoContent_def)
  from delete_status_codes [where L = lib0 and P = "scripted [answer 204 []] []" and c = client0 and s = net0 and s' = "snd (DeleteAgencyAccount lib0 (scripted [answer 204 []] []) client0 9 net0)" and resp = "\<lparr>StatusCode = 204, Status = ''status'', Body = [], BodyErr = None\<rparr>" and r = "fst (DeleteAgencyAccount lib0 (scripted [answer 204 []] []) client0 9 net0)" and agencyID = "9"] a8
  have c8: "judged (\<lambda>n. 200 \<le> n \<and> n < 300) \<lparr>StatusCode = 204, Status = ''status'', Body = [], BodyErr = None\<rparr> (fst (DeleteAgencyAccount lib0 (scripted [answer 204 []] []) client0 9 net0))"
    by simp
  have a9: "answered (scripted [answer 500 ''boom''] []) net0 (snd (DeleteBusinessAccount lib0 (scripted [answer 500 ''boom''] []) client0 9 net0)) =
      Some (Inr \<lparr>StatusCode = 500, Status = ''status'', Body = ''boom'', BodyErr = None\<rparr>)"
    by (simp add: DeleteBusinessAccount_def lib0_def client0_def scripted_def net0_def answered_def http_NewRequest_def
          HttpClient_Do_def Header_Set_def Header_Add_def answer_def io_ReadAll_def uuid_Nil_def
          Client_Validate_def Values_Set_def http_StatusOK_def http_StatusNoContent_def)
  from delete_status_codes [where L = lib0 and P = "scripted [answer 500 ''boom''] []" and c = client0 and s = net0 and s' = "snd (DeleteBusinessAccount lib0 (scripted [answer 500 ''boom''] []) client0 9 net0)" and resp = "\<lparr>StatusCode = 500, Status = ''status'', Body = ''boom'', BodyErr = None\<rparr>" and r = "fst (DeleteBusinessAccount lib0 (scripted [answer 500 ''boom''] []) client0 9 net0)" and businessID = "9"] a9
  have c9: "fst (DeleteBusinessAccount lib0 (scripted [answer 500 ''boom''] []) client0 9 net0) \<noteq> None"
    by simp
  have a10: "answered (scripted [answer 200 ''success''] []) net0 (snd (DeleteCelebrityAccount lib0 (scripted [answer 200 ''success''] []) client0 8 9 net0)) =
      Some (Inr \<lparr>StatusCode = 200, Status = ''status'', Body = ''success'', BodyErr = None\<rparr>)"
    by (simp add: DeleteCelebrityAccount_def lib0_def client0_def scripted_def net0_def answered_def http_NewRequest_def
          HttpClient_Do_def Header_Set_def Header_Add_def answer_def io_ReadAll_def uuid_Nil_def
          Client_Validate_def Values_Set_def http_StatusOK_def http_StatusNoContent_def)
  from delete_status_codes [where L = lib0 and P = "scripted [answer 200 ''success''] []" and c = client0 and s = net0 and s' = "snd (DeleteCelebrityAccount lib0 (scripted [answer 200 ''success''] []) client0 8 9 net0)" and resp = "\<lparr>StatusCode = 200, Status = ''status'', Body = ''success'', BodyErr = None\<rparr>" and r = "fst (DeleteCelebrityAccount lib0 (scripted [answer 200 ''success''] []) client0 8 9 net0)" and userID = "8" and celebrityID = "9"] a10
  have c10: "fst (DeleteCelebrityAccount lib0 (scripted [answer 200 ''success''] []) client0 8 9 net0) = None"
    by (simp add: lib0_def)
  have a11: "answered (scripted [answer 500 ''boom''] []) net0 (snd (DeleteAccountLink lib0 (scripted [answer 500 ''boom''] []) client0 (Some \<lparr>alr_UserID = 8, alr_AccountType = ''agency'', alr_AccountID = 9\<rparr>) net0)) =
      Some (Inr \<lparr>StatusCode = 500, Status = ''status'', Body = ''boom'', BodyErr = None\<rparr>)"
    by (simp add: DeleteAccountLink_def lib0_def client0_def scripted_def net0_def answered_def http_NewRequest_def
          HttpClient_Do_def Header_Set_def Header_Add_def answer_def io_ReadAll_def uuid_Nil_def
          Client_Validate_def Values_Set_def http_StatusOK_def http_StatusNoContent_def)
  from delete_status_codes [where L = lib0 and P = "scripted [answer 500 ''boom''] []" and c = client0 and s = net0 and s' = "snd (DeleteAccountLink lib0 (scripted [answer 500 ''boom''] []) client0 (Some \<lparr>alr_UserID = 8, alr_AccountType = ''agency'', alr_AccountID = 9\<rparr>) net0)" and resp = "\<lparr>StatusCode = 500, Status = ''status'', Body = ''boom'', BodyErr = None\<rparr>" and rl = "fst (DeleteAccountLink lib0 (scripted [answer 500 ''boom''] []) client0 (Some \<lparr>alr_UserID = 8, alr_AccountType = ''agency'', alr_AccountID = 9\<rparr>) net0)" and accountLinkRequest = "(Some \<lparr>alr_UserID = 8, alr_AccountType = ''agency'', alr_AccountID = 9\<rparr>)"] a11
  have c11: "fst (DeleteAccountLink lib0 (scripted [answer 500 ''boom''] []) client0 (Some \<lparr>alr_UserID = 8, alr_AccountType = ''agency'', alr_AccountID = 9\<rparr>) net0) \<noteq> None \<and> fst (DeleteAccountLink lib0 (scripted [answer 500 ''boom''] []) client0 (Some \<lparr>alr_UserID = 8, alr_AccountType = ''agency'', alr_AccountID = 9\<rparr>) net0) \<noteq> Some None"
    by simp
  from a0 c0 a1 c1 a2 c2 a3 c3 a4 c4 a5 c5 a6 c6 a7 c7 a8 c8 a9 c9 a10 c10 a11 c11
  show ?thesis by (simp add: answer_def)
qed

end
